theory Spec2Isabelle
  imports Main "HOL-Library.Sublist"
begin

section \<open>JavaScript values, errors and the host\<close>

text \<open>
  The values the translation reads from Realm objects and from the settings: the
  primitive values, dates and plain data objects. Numbers are doubles in the source;
  their representation is left open (the type parameter \<open>'n\<close>) and their
  operations are supplied by the host. A date carries its time value, the milliseconds
  since the epoch in UTC, or \<open>None\<close> for an invalid date. An object is the list of its
  data properties; what a read finds beyond them (the result of an accessor, which may
  throw, or a member inherited from the prototype) is the host's to say, see \<open>member\<close>
  below. A function is known by a name only.
\<close>

datatype 'n jsval =
    JUndefined
  | JNull
  | JBool bool
  | JNum 'n
  | JStr string
  | JDate "int option"
  | JObj "(string \<times> 'n jsval) list"
  | JFunction string

type_synonym 'n obj = "(string \<times> 'n jsval) list"

text \<open>
  A thrown error object: its \<open>name\<close>, its \<open>message\<close> and the ad hoc property
  \<open>canDeleteSyncOut\<close>, which is \<open>True\<close> exactly when the property has been set to
  true (the source never assigns any other value to it).
\<close>

record js_error =
  ename :: string
  message :: string
  canDeleteSyncOut :: bool

definition new_Error :: "string \<Rightarrow> js_error" where
  "new_Error msg = \<lparr>ename = ''Error'', message = msg, canDeleteSyncOut = False\<rparr>"

datatype vocabulary =
    RECORD_TYPES
  | REQUISITION_STATUSES
  | REQUISITION_TYPES
  | SEQUENCE_KEYS
  | STATUSES
  | SYNC_TYPES
  | TRANSACTION_BATCH_TYPES
  | TRANSACTION_TYPES

datatype settings_key = SUPPLYING_STORE_NAME_ID | THIS_STORE_ID | SYNC_URL | SYNC_SITE_NAME

text \<open>
  What the source imports or gets from the JavaScript engine, none of it under the
  repository's sources: the engine's number operations and the texts of its own errors,
  what a read of a property finds that is not among the data properties of the value
  (\<open>member\<close>: the result of an accessor, \<open>Inl\<close> when the getter throws as Realm's do on
  an invalidated object, a member inherited from the prototype such as the length of a
  string or a method, or \<open>undefined\<close> when there is none),
  the local time zone (\<open>localTZA\<close>, the milliseconds local time is ahead of UTC, taken
  as constant, and \<open>tzSuffix\<close>, what \<open>toTimeString\<close> writes after the time), the
  vocabulary tables of \<open>syncTranslators\<close> (a call
  \<open>TABLE.translate(key, INTERNAL_TO_EXTERNAL, context)\<close> returns a value or throws; an
  omitted context is \<open>undefined\<close>), the constant \<open>CHANGE_TYPES.DELETE\<close> and the
  bugsnag client's \<open>notify\<close> (\<open>None\<close> when it returns, \<open>Some f\<close> when it throws
  \<open>f\<close>).
\<close>

record 'n env =
  numToString :: "'n \<Rightarrow> string"
  numFalsy :: "'n \<Rightarrow> bool"
  numTimes :: "'n jsval \<Rightarrow> 'n jsval \<Rightarrow> 'n"
  dateToString :: "int option \<Rightarrow> string"
  objToString :: "'n obj \<Rightarrow> string"
  funToString :: "string \<Rightarrow> string"
  member :: "'n jsval \<Rightarrow> string \<Rightarrow> js_error + 'n jsval"
  localTZA :: int
  tzSuffix :: string
  nullAccessMessage :: "'n jsval \<Rightarrow> string \<Rightarrow> string"
  notFunctionMessage :: "string \<Rightarrow> string"
  invalidTimeMessage :: string
  translate :: "vocabulary \<Rightarrow> 'n jsval \<Rightarrow> 'n jsval \<Rightarrow> js_error + 'n jsval"
  CHANGE_TYPES_DELETE :: string
  notify :: "js_error \<Rightarrow> js_error option"

definition new_TypeError :: "string \<Rightarrow> js_error" where
  "new_TypeError msg = \<lparr>ename = ''TypeError'', message = msg, canDeleteSyncOut = False\<rparr>"

definition new_RangeError :: "string \<Rightarrow> js_error" where
  "new_RangeError msg = \<lparr>ename = ''RangeError'', message = msg, canDeleteSyncOut = False\<rparr>"

text \<open>\<open>!v\<close> is \<open>\<not> truthy env v\<close>.\<close>

fun truthy :: "'n env \<Rightarrow> 'n jsval \<Rightarrow> bool" where
  "truthy env JUndefined = False"
| "truthy env JNull = False"
| "truthy env (JBool b) = b"
| "truthy env (JNum n) = (\<not> numFalsy env n)"
| "truthy env (JStr s) = (s \<noteq> [])"
| "truthy env (JDate t) = True"
| "truthy env (JObj fs) = True"
| "truthy env (JFunction f) = True"

fun typeof :: "'n jsval \<Rightarrow> string" where
  "typeof JUndefined = ''undefined''"
| "typeof JNull = ''object''"
| "typeof (JBool b) = ''boolean''"
| "typeof (JNum n) = ''number''"
| "typeof (JStr s) = ''string''"
| "typeof (JDate t) = ''object''"
| "typeof (JObj fs) = ''object''"
| "typeof (JFunction f) = ''function''"

text \<open>
  \<open>record.p\<close> on the entity the database returned, for the properties of its schema:
  the property's value, \<open>undefined\<close> when it is missing.
\<close>

definition field :: "'n obj \<Rightarrow> string \<Rightarrow> 'n jsval" where
  "field fs p = (case map_of fs p of None \<Rightarrow> JUndefined | Some v \<Rightarrow> v)"

text \<open>The data property of a name that a value lists, if any.\<close>

fun own_property :: "'n jsval \<Rightarrow> string \<Rightarrow> 'n jsval option" where
  "own_property (JObj fs) p = map_of fs p"
| "own_property v p = None"

text \<open>
  \<open>v[p]\<close> on any value: reading a property of \<open>null\<close> or \<open>undefined\<close> throws a
  TypeError; on any other value the read gives the data property of that name, and
  otherwise what the host finds, which may be the fault of an accessor.
\<close>

fun js_get :: "'n env \<Rightarrow> 'n jsval \<Rightarrow> string \<Rightarrow> js_error + 'n jsval" where
  "js_get env JUndefined p = Inl (new_TypeError (nullAccessMessage env JUndefined p))"
| "js_get env JNull p = Inl (new_TypeError (nullAccessMessage env JNull p))"
| "js_get env v p = (case own_property v p of Some x \<Rightarrow> Inr x | None \<Rightarrow> member env v p)"

section \<open>The safe navigator\<close>

text \<open>\<open>path.split('.')\<close>: always at least one segment.\<close>

fun split_dot :: "string \<Rightarrow> string list" where
  "split_dot [] = [[]]"
| "split_dot (c # cs) =
     (if c = CHR ''.'' then [] # split_dot cs
      else (case split_dot cs of [] \<Rightarrow> [[c]] | s # ss \<Rightarrow> (c # s) # ss))"

text \<open>
  The loop of \<open>safeGet\<close> over the segments still to visit, with the path built so far
  and the value reached. The catch block marks the error, then rewrites its message
  around the message it had.
\<close>

fun safeGet_loop :: "'n env \<Rightarrow> string \<Rightarrow> 'n jsval \<Rightarrow> string list \<Rightarrow> js_error + 'n jsval" where
  "safeGet_loop env currentPath nestedProp [] = Inr nestedProp"
| "safeGet_loop env currentPath nestedProp (segment # rest) =
     (let currentPath' = currentPath @ ''.'' @ segment in
      case js_get env nestedProp segment of
        Inl error \<Rightarrow>
          Inl (error\<lparr>canDeleteSyncOut := True,
                     message := ''Error on object getter on path \"'' @ currentPath' @
                                ''\", original message: '' @ message error\<rparr>)
      | Inr v \<Rightarrow> safeGet_loop env currentPath' v rest)"

definition safeGet :: "'n env \<Rightarrow> 'n jsval \<Rightarrow> string \<Rightarrow> js_error + 'n jsval" where
  "safeGet env record path = safeGet_loop env ''record'' record (split_dot path)"

text \<open>The text \<open>currentPath\<close> holds once the given segments have been appended to it.\<close>

definition path_upto :: "string list \<Rightarrow> string" where
  "path_upto segs = ''record'' @ concat (map (\<lambda>s. ''.'' @ s) segs)"

section \<open>Strings, numbers and dates of the host\<close>

text \<open>
  The string a value turns into, inside a template literal and under \<open>String(v)\<close>.
\<close>

fun toString :: "'n env \<Rightarrow> 'n jsval \<Rightarrow> string" where
  "toString env JUndefined = ''undefined''"
| "toString env JNull = ''null''"
| "toString env (JBool b) = (if b then ''true'' else ''false'')"
| "toString env (JNum n) = numToString env n"
| "toString env (JStr s) = s"
| "toString env (JDate t) = dateToString env t"
| "toString env (JObj fs) = objToString env fs"
| "toString env (JFunction f) = funToString env f"

definition js_String :: "'n env \<Rightarrow> 'n jsval \<Rightarrow> 'n jsval" where
  "js_String env v = JStr (toString env v)"

text \<open>\<open>a * b\<close>: always a number.\<close>

definition js_times :: "'n env \<Rightarrow> 'n jsval \<Rightarrow> 'n jsval \<Rightarrow> 'n jsval" where
  "js_times env a b = JNum (numTimes env a b)"

definition digit :: "nat \<Rightarrow> char" where
  "digit n = ''0123456789'' ! (n mod 10)"

text \<open>The last \<open>k\<close> decimal digits of \<open>n\<close>, zero-padded.\<close>

fun pad :: "nat \<Rightarrow> nat \<Rightarrow> string" where
  "pad 0 n = []"
| "pad (Suc k) n = pad k (n div 10) @ [digit n]"

definition msPerDay :: int where
  "msPerDay = 86400000"

text \<open>
  The proleptic Gregorian calendar, as ECMAScript's dates use it: the year, the month
  (1 to 12) and the day of the month of a day number counted from 1970-01-01, and
  back.
\<close>

definition civil_from_days :: "int \<Rightarrow> int \<times> int \<times> int" where
  "civil_from_days days =
     (let z = days + 719468;
          era = z div 146097;
          doe = z mod 146097;
          yoe = (doe - doe div 1460 + doe div 36524 - doe div 146096) div 365;
          doy = doe - (365 * yoe + yoe div 4 - yoe div 100);
          mp = (5 * doy + 2) div 153;
          d = doy - (153 * mp + 2) div 5 + 1;
          m = (if mp < 10 then mp + 3 else mp - 9);
          y = yoe + era * 400 + (if m \<le> 2 then 1 else 0)
      in (y, m, d))"


text \<open>
  \<open>Date.prototype.toISOString\<close> on a valid time value: the UTC date and time, the year
  in four digits from 0 to 9999 and signed in six digits otherwise.
\<close>

definition isoString :: "int \<Rightarrow> string" where
  "isoString t =
     (case civil_from_days (t div msPerDay) of (y, m, d) \<Rightarrow>
        let ms = t mod msPerDay;
            year = (if 0 \<le> y \<and> y \<le> 9999 then pad 4 (nat y)
                    else (if y < 0 then ''-'' else ''+'') @ pad 6 (nat \<bar>y\<bar>))
        in year @ ''-'' @ pad 2 (nat m) @ ''-'' @ pad 2 (nat d) @ ''T'' @
           pad 2 (nat (ms div 3600000)) @ '':'' @ pad 2 (nat (ms div 60000 mod 60)) @ '':'' @
           pad 2 (nat (ms div 1000 mod 60)) @ ''.'' @ pad 3 (nat (ms mod 1000)) @ ''Z'')"

text \<open>
  \<open>Date.prototype.toTimeString\<close> on a valid time value: the local wall-clock time,
  then the host's description of the zone.
\<close>

definition timeString :: "'n env \<Rightarrow> int \<Rightarrow> string" where
  "timeString env t =
     (let ms = (t + localTZA env) mod msPerDay
      in pad 2 (nat (ms div 3600000)) @ '':'' @ pad 2 (nat (ms div 60000 mod 60)) @ '':'' @
         pad 2 (nat (ms div 1000 mod 60)) @ tzSuffix env)"

text \<open>The method calls \<open>date.toISOString()\<close> and \<open>date.toTimeString()\<close> on any value.\<close>

fun toISOString :: "'n env \<Rightarrow> 'n jsval \<Rightarrow> js_error + string" where
  "toISOString env (JDate (Some t)) = Inr (isoString t)"
| "toISOString env (JDate None) = Inl (new_RangeError (invalidTimeMessage env))"
| "toISOString env JUndefined = Inl (new_TypeError (nullAccessMessage env JUndefined ''toISOString''))"
| "toISOString env JNull = Inl (new_TypeError (nullAccessMessage env JNull ''toISOString''))"
| "toISOString env v = Inl (new_TypeError (notFunctionMessage env ''toISOString''))"

fun toTimeString :: "'n env \<Rightarrow> 'n jsval \<Rightarrow> js_error + string" where
  "toTimeString env (JDate (Some t)) = Inr (timeString env t)"
| "toTimeString env (JDate None) = Inr ''Invalid Date''"
| "toTimeString env JUndefined = Inl (new_TypeError (nullAccessMessage env JUndefined ''toTimeString''))"
| "toTimeString env JNull = Inl (new_TypeError (nullAccessMessage env JNull ''toTimeString''))"
| "toTimeString env v = Inl (new_TypeError (notFunctionMessage env ''toTimeString''))"


section \<open>Date and time formatting\<close>

definition getDateString :: "'n env \<Rightarrow> 'n jsval \<Rightarrow> js_error + 'n jsval" where
  "getDateString env date =
     (if truthy env date \<and> typeof date = ''object''
      then (case toISOString env date of
              Inl e \<Rightarrow> Inl e
            | Inr isoText \<Rightarrow> Inr (JStr (take 10 isoText @ ''T00:00:00'')))
      else Inr (JStr (''0000-00-00'' @ ''T00:00:00'')))"

definition getTimeString :: "'n env \<Rightarrow> 'n jsval \<Rightarrow> js_error + 'n jsval" where
  "getTimeString env date =
     (if \<not> truthy env date \<or> typeof date \<noteq> ''object'' then Inr (JStr ''00:00:00'')
      else (case toTimeString env date of
              Inl e \<Rightarrow> Inl e
            | Inr s \<Rightarrow> Inr (JStr (take 8 s))))"

section \<open>The field projector\<close>

definition bindE :: "('e + 'a) \<Rightarrow> ('a \<Rightarrow> 'e + 'b) \<Rightarrow> 'e + 'b" where
  "bindE m f = (case m of Inl e \<Rightarrow> Inl e | Inr v \<Rightarrow> f v)"

text \<open>
  An object literal evaluates its property values from first to last; the first one
  that throws ends the evaluation.
\<close>

fun object_literal :: "(string \<times> (js_error + 'n jsval)) list \<Rightarrow> js_error + 'n obj" where
  "object_literal [] = Inr []"
| "object_literal ((k, c) # fs) =
     (case c of
        Inl e \<Rightarrow> Inl e
      | Inr v \<Rightarrow> (case object_literal fs of Inl e \<Rightarrow> Inl e | Inr kvs \<Rightarrow> Inr ((k, v) # kvs)))"

text \<open>\<open>a && a.id\<close>: the left operand itself when it is falsy.\<close>

definition and_id :: "'n env \<Rightarrow> 'n jsval \<Rightarrow> js_error + 'n jsval" where
  "and_id env a = (if truthy env a then js_get env a ''id'' else Inr a)"

definition generateSyncData ::
  "'n env \<Rightarrow> (settings_key \<Rightarrow> 'n jsval) \<Rightarrow> string \<Rightarrow> 'n obj \<Rightarrow> js_error + 'n obj" where
  "generateSyncData env settings recordType record =
     (if recordType = ''ItemBatch'' then
        object_literal [
          (''ID'', Inr (field record ''id'')),
          (''store_ID'', Inr (settings THIS_STORE_ID)),
          (''item_ID'', Inr (field record ''itemId'')),
          (''pack_size'', Inr (js_String env (field record ''packSize''))),
          (''expiry_date'', getDateString env (field record ''expiryDate'')),
          (''batch'', Inr (field record ''batch'')),
          (''available'', Inr (js_String env (field record ''numberOfPacks''))),
          (''quantity'', Inr (js_String env (field record ''numberOfPacks''))),
          (''stock_on_hand_tot'', Inr (js_String env (field record ''totalQuantity''))),
          (''cost_price'', Inr (js_String env (field record ''costPrice''))),
          (''sell_price'', Inr (js_String env (field record ''sellPrice''))),
          (''total_cost'', Inr (js_String env
              (js_times env (field record ''costPrice'') (field record ''numberOfPacks'')))),
          (''name_ID'', Inr (settings SUPPLYING_STORE_NAME_ID))]
      else if recordType = ''NumberSequence'' then
        (let thisStoreId = settings THIS_STORE_ID in
         object_literal [
          (''ID'', Inr (field record ''id'')),
          (''name'', translate env SEQUENCE_KEYS (field record ''sequenceKey'') thisStoreId),
          (''value'', Inr (js_String env (field record ''highestNumberUsed'')))])
      else if recordType = ''NumberToReuse'' then
        (let thisStoreId = settings THIS_STORE_ID in
         object_literal [
          (''ID'', Inr (field record ''id'')),
          (''name'', translate env SEQUENCE_KEYS (field record ''sequenceKey'') thisStoreId),
          (''number_to_use'', Inr (js_String env (field record ''number'')))])
      else if recordType = ''Requisition'' then
        object_literal [
          (''ID'', Inr (field record ''id'')),
          (''date_entered'', getDateString env (field record ''entryDate'')),
          (''user_ID'', Inr (field record ''enteredById'')),
          (''name_ID'', and_id env (field record ''otherStoreName'')),
          (''status'', translate env REQUISITION_STATUSES (field record ''status'') JUndefined),
          (''daysToSupply'', Inr (js_String env (field record ''daysToSupply''))),
          (''store_ID'', Inr (settings THIS_STORE_ID)),
          (''serial_number'', Inr (field record ''serialNumber'')),
          (''requester_reference'', Inr (field record ''requesterReference'')),
          (''comment'', Inr (field record ''comment'')),
          (''type'', translate env REQUISITION_TYPES (field record ''type'') JUndefined)]
      else if recordType = ''RequisitionItem'' then
        object_literal [
          (''ID'', Inr (field record ''id'')),
          (''requisition_ID'', Inr (field record ''requisitionId'')),
          (''item_ID'', Inr (field record ''itemId'')),
          (''stock_on_hand'', Inr (js_String env (field record ''stockOnHand''))),
          (''daily_usage'', Inr (js_String env (field record ''dailyUsage''))),
          (''suggested_quantity'', Inr (js_String env (field record ''suggestedQuantity''))),
          (''actualQuan'', Inr (js_String env (field record ''suppliedQuantity''))),
          (''line_number'', Inr (js_String env (field record ''sortIndex''))),
          (''Cust_stock_order'', Inr (js_String env (field record ''requiredQuantity''))),
          (''comment'', Inr (field record ''comment''))]
      else if recordType = ''Stocktake'' then
        object_literal [
          (''ID'', Inr (field record ''id'')),
          (''Description'', Inr (field record ''name'')),
          (''stock_take_date'', getDateString env (field record ''stocktakeDate'')),
          (''stock_take_time'', getTimeString env (field record ''stocktakeDate'')),
          (''created_by_ID'', and_id env (field record ''createdBy'')),
          (''status'', translate env STATUSES (field record ''status'') JUndefined),
          (''finalised_by_ID'', and_id env (field record ''finalisedBy'')),
          (''invad_additions_ID'', and_id env (field record ''additions'')),
          (''invad_reductions_ID'', and_id env (field record ''reductions'')),
          (''store_ID'', Inr (settings THIS_STORE_ID)),
          (''comment'', Inr (field record ''comment'')),
          (''stock_take_created_date'', getDateString env (field record ''createdDate'')),
          (''serial_number'', Inr (field record ''serialNumber''))]
      else if recordType = ''StocktakeBatch'' then
        object_literal [
          (''ID'', Inr (field record ''id'')),
          (''stock_take_ID'', and_id env (field record ''stocktake'')),
          (''item_line_ID'', Inr (field record ''itemBatchId'')),
          (''snapshot_qty'', Inr (js_String env (field record ''snapshotNumberOfPacks''))),
          (''snapshot_packsize'', Inr (js_String env (field record ''packSize''))),
          (''stock_take_qty'', Inr (js_String env (field record ''countedNumberOfPacks''))),
          (''line_number'', Inr (js_String env (field record ''sortIndex''))),
          (''expiry'', getDateString env (field record ''expiryDate'')),
          (''cost_price'', Inr (js_String env (field record ''costPrice''))),
          (''sell_price'', Inr (js_String env (field record ''sellPrice''))),
          (''Batch'', Inr (field record ''batch'')),
          (''item_ID'', Inr (field record ''itemId''))]
      else if recordType = ''Transaction'' then
        object_literal [
          (''ID'', Inr (field record ''id'')),
          (''name_ID'', and_id env (field record ''otherParty'')),
          (''invoice_num'', Inr (field record ''serialNumber'')),
          (''comment'', Inr (field record ''comment'')),
          (''entry_date'', getDateString env (field record ''entryDate'')),
          (''type'', translate env TRANSACTION_TYPES (field record ''type'') JUndefined),
          (''status'', translate env STATUSES (field record ''status'') JUndefined),
          (''mode'', Inr (JStr ''store'')),
          (''total'', Inr (js_String env (field record ''totalPrice''))),
          (''their_ref'', Inr (field record ''theirRef'')),
          (''confirm_date'', getDateString env (field record ''confirmDate'')),
          (''subtotal'', Inr (js_String env (field record ''totalPrice''))),
          (''user_ID'', and_id env (field record ''enteredBy'')),
          (''category_ID'', and_id env (field record ''category'')),
          (''confirm_time'', getTimeString env (field record ''confirmDate'')),
          (''store_ID'', Inr (settings THIS_STORE_ID)),
          (''requisition_ID'',
             bindE (and_id env (field record ''linkedRequisition'')) (\<lambda>c.
               if truthy env c then js_get env (field record ''linkedRequisition'') ''id''
               else Inr JUndefined))]
      else if recordType = ''TransactionBatch'' then
        (let transaction = field record ''transaction'' in
         object_literal [
          (''ID'', Inr (field record ''id'')),
          (''transaction_ID'', js_get env (field record ''transaction'') ''id''),
          (''item_ID'', Inr (field record ''itemId'')),
          (''batch'', Inr (field record ''batch'')),
          (''price_extension'', Inr (js_String env (field record ''totalPrice''))),
          (''note'', Inr (field record ''note'')),
          (''cost_price'', Inr (js_String env (field record ''costPrice''))),
          (''sell_price'', Inr (js_String env (field record ''sellPrice''))),
          (''expiry_date'', getDateString env (field record ''expiryDate'')),
          (''pack_size'', Inr (js_String env (field record ''packSize''))),
          (''quantity'', Inr (js_String env (field record ''numberOfPacks''))),
          (''item_line_ID'', safeGet env (JObj record) ''itemBatch.id''),
          (''line_number'', Inr (js_String env (field record ''sortIndex''))),
          (''item_name'', Inr (field record ''itemName'')),
          (''is_from_inventory_adjustment'', js_get env transaction ''isInventoryAdjustment''),
          (''type'',
             bindE (js_get env transaction ''type'') (\<lambda>t.
               translate env TRANSACTION_BATCH_TYPES t JUndefined))])
      else Inl (new_Error ''Sync out record type not supported.''))"

section \<open>The envelope builder\<close>

text \<open>
  A sync out record that is not \<open>null\<close>: what \<open>isValid()\<close> answers, and its
  properties, strings in the Realm schema, so that \<open>!p\<close> holds of the empty string
  alone. In \<open>generateSyncJson\<close> the record is \<open>None\<close> when it is \<open>null\<close> or
  \<open>undefined\<close>.
\<close>

record sync_out_record =
  isValid :: bool
  id_of :: string
  recordType_of :: string
  recordId_of :: string
  changeType_of :: string

text \<open>
  The calls that leave the translation: a query of the local database and a report to
  bugsnag. The log of the calls made so far is threaded through \<open>generateSyncJson\<close>.
\<close>

datatype event = Query string string | Notify js_error

text \<open>\<open>results.filtered('id == $0', recordId)\<close>\<close>

definition filtered_id :: "'n obj list \<Rightarrow> string \<Rightarrow> 'n obj list" where
  "filtered_id results recordId = filter (\<lambda>r. field r ''id'' = JStr recordId) results"

text \<open>The message of lines 75 to 78, for bugsnag.\<close>

definition diagnosticMessage ::
  "'n env \<Rightarrow> (settings_key \<Rightarrow> 'n jsval) \<Rightarrow> sync_out_record \<Rightarrow> string \<Rightarrow> string" where
  "diagnosticMessage env settings syncOutRecord originalMessage =
     ''SYNC OUT ERROR. siteName: '' @ toString env (settings SYNC_SITE_NAME) @
     '', serverUrl: '' @ toString env (settings SYNC_URL) @ '', '' @
     ''syncOutRecord.id: '' @ id_of syncOutRecord @
     '', storeId: '' @ toString env (settings THIS_STORE_ID) @
     '' changeType: '' @ changeType_of syncOutRecord @ '', '' @
     ''recordType: '' @ recordType_of syncOutRecord @
     '', recordId: '' @ recordId_of syncOutRecord @
     '', message: '' @ originalMessage"

definition userMessage :: "string \<Rightarrow> string" where
  "userMessage originalMessage =
     ''There was an error syncing. Contact mSupply mobile support. '' @ originalMessage"

definition generateSyncJson ::
  "'n env \<Rightarrow> (string \<Rightarrow> 'n obj list) \<Rightarrow> (settings_key \<Rightarrow> 'n jsval) \<Rightarrow>
     sync_out_record option \<Rightarrow> event list \<Rightarrow> (js_error + 'n obj) \<times> event list" where
  "generateSyncJson env database settings syncOutRecord0 log =
     (case syncOutRecord0 of
        None \<Rightarrow> (Inl (new_Error ''Missing sync out record''), log)
      | Some syncOutRecord \<Rightarrow>
        if \<not> isValid syncOutRecord then (Inl (new_Error ''Missing sync out record''), log)
        else if recordType_of syncOutRecord = [] \<or> id_of syncOutRecord = [] \<or>
                recordId_of syncOutRecord = []
        then (Inl (new_Error ''Malformed sync out record''), log)
        else
          let recordType = recordType_of syncOutRecord;
              recordId = recordId_of syncOutRecord;
              changeType = changeType_of syncOutRecord;
              storeId = settings THIS_STORE_ID
          in
          (case translate env RECORD_TYPES (JStr recordType) JUndefined of
             Inl e \<Rightarrow> (Inl e, log)
           | Inr externalRecordType \<Rightarrow>
          (case translate env SYNC_TYPES (JStr changeType) JUndefined of
             Inl e \<Rightarrow> (Inl e, log)
           | Inr externalSyncType \<Rightarrow>
          (let syncJson = [
                (''SyncID'', JStr (id_of syncOutRecord)),
                (''RecordType'', externalRecordType),
                (''RecordID'', JStr recordId),
                (''SyncType'', externalSyncType),
                (''StoreID'', storeId)]
          in
          if changeType = CHANGE_TYPES_DELETE env then (Inr syncJson, log)
          else if changeType = ''delete''
          then (Inr (syncJson @ [(''Data'', JObj [(''ID'', JStr recordId)])]), log)
          else
            (let recordResults = filtered_id (database recordType) recordId;
                 log1 = log @ [Query recordType recordId]
            in
            (case recordResults of
              [] \<Rightarrow> (Inl (new_Error (recordType @ '' with id = '' @ recordId @ '' missing'')), log1)
            | [record] \<Rightarrow>
                (case generateSyncData env settings recordType record of
                   Inr syncData \<Rightarrow> (Inr (syncJson @ [(''Data'', JObj syncData)]), log1)
                 | Inl error \<Rightarrow>
                     (let originalMessage = message error;
                          reported = error\<lparr>message :=
                            diagnosticMessage env settings syncOutRecord originalMessage\<rparr>;
                          log2 = log1 @ [Notify reported]
                      in
                      (case notify env reported of
                         Some fault \<Rightarrow> (Inl fault, log2)
                       | None \<Rightarrow>
                           (Inl (error\<lparr>message := userMessage originalMessage\<rparr>), log2))))
            | _ \<Rightarrow>
                (Inl (new_Error (''Multiple '' @ recordType @ '' records with id = '' @ recordId)),
                 log1)))))))"

text \<open>The sync out records that pass the two guards of lines 30 to 33.\<close>

definition well_formed :: "sync_out_record \<Rightarrow> bool" where
  "well_formed r = (isValid r \<and> recordType_of r \<noteq> [] \<and> id_of r \<noteq> [] \<and> recordId_of r \<noteq> [])"

text \<open>The reports to bugsnag and the database queries of a log, in order.\<close>

fun notifications :: "event list \<Rightarrow> js_error list" where
  "notifications [] = []"
| "notifications (Notify e # es) = e # notifications es"
| "notifications (Query t i # es) = notifications es"

fun queries :: "event list \<Rightarrow> (string \<times> string) list" where
  "queries [] = []"
| "queries (Query t i # es) = (t, i) # queries es"
| "queries (Notify e # es) = queries es"

section \<open>A sample host, sample settings and sample records\<close>

text \<open>
  A host to evaluate the translation on: its numbers are the integers and NaN
  (\<open>None\<close>), it converts \<open>null\<close> and booleans to numbers and everything else that is
  not a number to NaN, its vocabulary tables know the three change types and map any
  other string to itself, no accessor of its objects throws, and its \<open>notify\<close>
  returns.
\<close>

fun show_nat :: "nat \<Rightarrow> string" where
  "show_nat n = (if n < 10 then [digit n] else show_nat (n div 10) @ [digit n])"

definition sample_numToString :: "int option \<Rightarrow> string" where
  "sample_numToString n =
     (case n of
        None \<Rightarrow> ''NaN''
      | Some i \<Rightarrow> (if i < 0 then ''-'' else []) @ show_nat (nat \<bar>i\<bar>))"

fun sample_toNumber :: "int option jsval \<Rightarrow> int option" where
  "sample_toNumber (JNum n) = n"
| "sample_toNumber JNull = Some 0"
| "sample_toNumber (JBool b) = Some (if b then 1 else 0)"
| "sample_toNumber v = None"

definition sample_times :: "int option jsval \<Rightarrow> int option jsval \<Rightarrow> int option" where
  "sample_times a b =
     (case (sample_toNumber a, sample_toNumber b) of
        (Some x, Some y) \<Rightarrow> Some (x * y)
      | _ \<Rightarrow> None)"

fun sample_translate ::
  "vocabulary \<Rightarrow> int option jsval \<Rightarrow> int option jsval \<Rightarrow> js_error + int option jsval" where
  "sample_translate SYNC_TYPES (JStr s) context =
     Inr (if s = ''create'' then JStr ''I'' else if s = ''update'' then JStr ''U''
          else if s = ''delete'' then JStr ''D'' else JUndefined)"
| "sample_translate table (JStr s) context = Inr (JStr s)"
| "sample_translate table v context = Inr JUndefined"

text \<open>
  What the sample host finds beyond the data properties: the length of a string, the
  constructor of any value, and nothing else.
\<close>

fun sample_member :: "int option jsval \<Rightarrow> string \<Rightarrow> js_error + int option jsval" where
  "sample_member v p =
     (if p = ''constructor'' then
        Inr (JFunction (case v of JStr s \<Rightarrow> ''String'' | JNum n \<Rightarrow> ''Number''
                        | JBool b \<Rightarrow> ''Boolean'' | JDate t \<Rightarrow> ''Date''
                        | JFunction f \<Rightarrow> ''Function'' | _ \<Rightarrow> ''Object''))
      else if p = ''length'' then
        (case v of JStr s \<Rightarrow> Inr (JNum (Some (int (length s)))) | _ \<Rightarrow> Inr JUndefined)
      else Inr JUndefined)"

definition sample_env :: "int \<Rightarrow> string \<Rightarrow> int option env" where
  "sample_env tza zone =
     \<lparr>numToString = sample_numToString,
      numFalsy = (\<lambda>n. n = None \<or> n = Some 0),
      numTimes = sample_times,
      dateToString = (\<lambda>t. case t of None \<Rightarrow> ''Invalid Date'' | Some t \<Rightarrow> isoString t),
      objToString = (\<lambda>fs. ''[object Object]''),
      funToString = (\<lambda>f. ''function '' @ f @ ''() { [native code] }''),
      member = sample_member,
      localTZA = tza,
      tzSuffix = zone,
      nullAccessMessage = (\<lambda>v p. ''Cannot read property '' @ p @ '' of '' @
                                   (if v = JNull then ''null'' else ''undefined'')),
      notFunctionMessage = (\<lambda>m. m @ '' is not a function''),
      invalidTimeMessage = ''Invalid time value'',
      translate = sample_translate,
      CHANGE_TYPES_DELETE = ''delete'',
      notify = (\<lambda>e. None)\<rparr>"

text \<open>The sample host in UTC, and in New Zealand daylight time, 13 hours ahead.\<close>

definition env_utc :: "int option env" where
  "env_utc = sample_env 0 '' GMT+0000 (UTC)''"

definition env_nzdt :: "int option env" where
  "env_nzdt = sample_env (13 * 3600000) '' GMT+1300 (NZDT)''"

text \<open>The sample host with a bugsnag client that throws.\<close>

definition env_notify_throws :: "int option env" where
  "env_notify_throws = env_utc\<lparr>notify := (\<lambda>e. Some (new_Error ''Network request failed''))\<rparr>"

text \<open>
  The sample host with Realm objects that have been invalidated: reading their
  \<open>item\<close> throws.
\<close>

definition env_invalidated :: "int option env" where
  "env_invalidated = env_utc\<lparr>member := (\<lambda>v p.
     if p = ''item'' \<and> typeof v = ''object''
     then Inl (new_Error ''Accessing object of type ItemBatch which has been invalidated or deleted'')
     else sample_member v p)\<rparr>"


fun sample_settings :: "settings_key \<Rightarrow> int option jsval" where
  "sample_settings THIS_STORE_ID = JStr ''STORE1''"
| "sample_settings SUPPLYING_STORE_NAME_ID = JStr ''NAME1''"
| "sample_settings SYNC_URL = JStr ''https://sync.example.org''"
| "sample_settings SYNC_SITE_NAME = JStr ''site1''"

text \<open>A requisition whose other store is not set, as Realm reads an unset link.\<close>

definition sample_requisition :: "int option obj" where
  "sample_requisition =
     [(''id'', JStr ''R1''),
      (''entryDate'', JDate (Some 1705276800000)),
      (''enteredById'', JStr ''U1''),
      (''otherStoreName'', JNull),
      (''status'', JStr ''suggested''),
      (''daysToSupply'', JNum (Some 30)),
      (''serialNumber'', JStr ''7''),
      (''requesterReference'', JStr ''ref''),
      (''comment'', JStr ''none''),
      (''type'', JStr ''request'')]"

text \<open>
  A transaction batch of an inventory adjustment, and a batch whose item batch was
  lost.
\<close>

definition sample_transactionBatch :: "int option obj" where
  "sample_transactionBatch =
     [(''id'', JStr ''TB1''),
      (''transaction'', JObj [(''id'', JStr ''T1''), (''isInventoryAdjustment'', JBool True),
                             (''type'', JStr ''supplier_invoice'')]),
      (''itemId'', JStr ''I1''),
      (''batch'', JStr ''B7''),
      (''totalPrice'', JNum (Some 24)),
      (''note'', JNull),
      (''costPrice'', JNum (Some 2)),
      (''sellPrice'', JNum (Some 3)),
      (''expiryDate'', JNull),
      (''packSize'', JNum (Some 10)),
      (''numberOfPacks'', JNum (Some 12)),
      (''itemBatch'', JObj [(''id'', JStr ''IB1'')]),
      (''sortIndex'', JNum (Some 1)),
      (''itemName'', JStr ''Amoxicillin'')]"

definition sample_orphanBatch :: "int option obj" where
  "sample_orphanBatch =
     [(''id'', JStr ''TB2''),
      (''transaction'', JObj [(''id'', JStr ''T1''), (''isInventoryAdjustment'', JBool False),
                             (''type'', JStr ''supplier_invoice'')]),
      (''itemBatch'', JNull)]"

text \<open>A transaction with no other party, no user, no category and no requisition.\<close>

definition sample_transaction :: "int option obj" where
  "sample_transaction =
     [(''id'', JStr ''T9''),
      (''otherParty'', JNull),
      (''serialNumber'', JStr ''12''),
      (''type'', JStr ''customer_invoice''),
      (''status'', JStr ''confirmed''),
      (''totalPrice'', JNum (Some 36)),
      (''confirmDate'', JDate (Some 1705323909000)),
      (''linkedRequisition'', JNull)]"

text \<open>
  A local database: one requisition, one transaction, two transaction batches, a
  duplicated item batch.
\<close>

definition sample_database :: "string \<Rightarrow> int option obj list" where
  "sample_database recordType =
     (if recordType = ''Requisition'' then [sample_requisition]
      else if recordType = ''TransactionBatch'' then [sample_transactionBatch, sample_orphanBatch]
      else if recordType = ''ItemBatch'' then [[(''id'', JStr ''IB1'')], [(''id'', JStr ''IB1'')]]
      else if recordType = ''Transaction'' then [sample_transaction]
      else [])"

definition sample_change :: "string \<Rightarrow> string \<Rightarrow> string \<Rightarrow> sync_out_record" where
  "sample_change changeType recordType recordId =
     \<lparr>isValid = True, id_of = ''S1'', recordType_of = recordType, recordId_of = recordId,
      changeType_of = changeType\<rparr>"

text \<open>
  The fields the projector builds as \<open>record.ref && record.ref.id\<close>, each with the
  reference it reads, by record type.
\<close>

definition optional_references :: "string \<Rightarrow> (string \<times> string) list" where
  "optional_references recordType =
     (if recordType = ''Requisition'' then [(''name_ID'', ''otherStoreName'')]
      else if recordType = ''Stocktake'' then
        [(''created_by_ID'', ''createdBy''), (''finalised_by_ID'', ''finalisedBy''),
         (''invad_additions_ID'', ''additions''), (''invad_reductions_ID'', ''reductions'')]
      else if recordType = ''StocktakeBatch'' then [(''stock_take_ID'', ''stocktake'')]
      else if recordType = ''Transaction'' then
        [(''name_ID'', ''otherParty''), (''user_ID'', ''enteredBy''),
         (''category_ID'', ''category'')]
      else [])"

text \<open>
  The fields the projector sets to a property of the entity as it is, each with the
  property it reads, and the fields it sets to a setting as it is, by record type.
\<close>

definition direct_fields :: "string \<Rightarrow> (string \<times> string) list" where
  "direct_fields recordType =
     (if recordType = ''ItemBatch'' then
        [(''ID'', ''id''),
         (''item_ID'', ''itemId''),
         (''batch'', ''batch'')]
      else if recordType = ''NumberSequence'' then
        [(''ID'', ''id'')]
      else if recordType = ''NumberToReuse'' then
        [(''ID'', ''id'')]
      else if recordType = ''Requisition'' then
        [(''ID'', ''id''),
         (''user_ID'', ''enteredById''),
         (''serial_number'', ''serialNumber''),
         (''requester_reference'', ''requesterReference''),
         (''comment'', ''comment'')]
      else if recordType = ''RequisitionItem'' then
        [(''ID'', ''id''),
         (''requisition_ID'', ''requisitionId''),
         (''item_ID'', ''itemId''),
         (''comment'', ''comment'')]
      else if recordType = ''Stocktake'' then
        [(''ID'', ''id''),
         (''Description'', ''name''),
         (''comment'', ''comment''),
         (''serial_number'', ''serialNumber'')]
      else if recordType = ''StocktakeBatch'' then
        [(''ID'', ''id''),
         (''item_line_ID'', ''itemBatchId''),
         (''Batch'', ''batch''),
         (''item_ID'', ''itemId'')]
      else if recordType = ''Transaction'' then
        [(''ID'', ''id''),
         (''invoice_num'', ''serialNumber''),
         (''comment'', ''comment''),
         (''their_ref'', ''theirRef'')]
      else if recordType = ''TransactionBatch'' then
        [(''ID'', ''id''),
         (''item_ID'', ''itemId''),
         (''batch'', ''batch''),
         (''note'', ''note''),
         (''item_name'', ''itemName'')]
      else [])"

definition setting_fields :: "string \<Rightarrow> (string \<times> settings_key) list" where
  "setting_fields recordType =
     (if recordType = ''ItemBatch'' then
        [(''store_ID'', THIS_STORE_ID),
         (''name_ID'', SUPPLYING_STORE_NAME_ID)]
      else if recordType = ''NumberSequence'' then
        []
      else if recordType = ''NumberToReuse'' then
        []
      else if recordType = ''Requisition'' then
        [(''store_ID'', THIS_STORE_ID)]
      else if recordType = ''RequisitionItem'' then
        []
      else if recordType = ''Stocktake'' then
        [(''store_ID'', THIS_STORE_ID)]
      else if recordType = ''StocktakeBatch'' then
        []
      else if recordType = ''Transaction'' then
        [(''store_ID'', THIS_STORE_ID)]
      else if recordType = ''TransactionBatch'' then
        []
      else [])"

text \<open>
  The fields the projector builds with \<open>String(\<dots>)\<close>, \<open>getDateString\<close> or
  \<open>getTimeString\<close>, by record type.
\<close>

definition stringified_fields :: "string \<Rightarrow> string list" where
  "stringified_fields recordType =
     (if recordType = ''ItemBatch'' then
        [''pack_size'', ''expiry_date'', ''available'', ''quantity'', ''stock_on_hand_tot'',
         ''cost_price'', ''sell_price'', ''total_cost'']
      else if recordType = ''NumberSequence'' then [''value'']
      else if recordType = ''NumberToReuse'' then [''number_to_use'']
      else if recordType = ''Requisition'' then [''date_entered'', ''daysToSupply'']
      else if recordType = ''RequisitionItem'' then
        [''stock_on_hand'', ''daily_usage'', ''suggested_quantity'', ''actualQuan'',
         ''line_number'', ''Cust_stock_order'']
      else if recordType = ''Stocktake'' then
        [''stock_take_date'', ''stock_take_time'', ''stock_take_created_date'']
      else if recordType = ''StocktakeBatch'' then
        [''snapshot_qty'', ''snapshot_packsize'', ''stock_take_qty'', ''line_number'',
         ''expiry'', ''cost_price'', ''sell_price'']
      else if recordType = ''Transaction'' then
        [''entry_date'', ''total'', ''confirm_date'', ''subtotal'', ''confirm_time'']
      else if recordType = ''TransactionBatch'' then
        [''price_extension'', ''cost_price'', ''sell_price'', ''expiry_date'', ''pack_size'',
         ''quantity'', ''line_number'']
      else [])"

section \<open>The safe navigator: where it faults and what it raises\<close>

lemma dot_append: "(@) ''.'' = (#) CHR ''.''"
  by (rule ext) simp

text \<open>
  Walking \<open>xs @ ys\<close> is walking \<open>xs\<close> and, unless that faults, walking \<open>ys\<close> from
  the value and with the path reached.
\<close>

lemma safeGet_loop_append:
  "safeGet_loop env cp v (xs @ ys) =
     (case safeGet_loop env cp v xs of
        Inl e \<Rightarrow> Inl e
      | Inr v' \<Rightarrow> safeGet_loop env (cp @ concat (map (\<lambda>s. ''.'' @ s) xs)) v' ys)"
proof (induction xs arbitrary: cp v)
  case Nil
  show ?case by simp
next
  case (Cons x xs)
  show ?case
  proof (cases "js_get env v x")
    case (Inl e)
    then show ?thesis by simp
  next
    case (Inr w)
    then show ?thesis
      using Cons.IH [of "cp @ ''.'' @ x" w] by (simp add: dot_append split: sum.split)
  qed
qed

lemma js_get_Inl_iff:
  "(\<exists>e. js_get env v p = Inl e) =
   (v = JNull \<or> v = JUndefined \<or> own_property v p = None \<and> (\<exists>e. member env v p = Inl e))"
  by (cases v) (auto split: option.splits)

lemma safeGet_loop_Inl_split:
  "safeGet_loop env cp v segs = Inl e \<Longrightarrow>
     \<exists>done segment rest w e0. segs = done @ segment # rest \<and>
        safeGet_loop env cp v done = Inr w \<and> js_get env w segment = Inl e0"
proof (induction segs arbitrary: cp v)
  case Nil
  then show ?case by simp
next
  case (Cons x xs)
  show ?case
  proof (cases "js_get env v x")
    case (Inl e0)
    have "x # xs = [] @ x # xs \<and> safeGet_loop env cp v [] = Inr v \<and> js_get env v x = Inl e0"
      using Inl by simp
    then show ?thesis by blast
  next
    case (Inr w)
    with Cons.prems have "safeGet_loop env (cp @ ''.'' @ x) w xs = Inl e" by simp
    from Cons.IH [OF this] obtain dn sg rs u e0 where
      h: "xs = dn @ sg # rs" "safeGet_loop env (cp @ ''.'' @ x) w dn = Inr u"
         "js_get env u sg = Inl e0"
      by blast
    have "x # xs = (x # dn) @ sg # rs \<and> safeGet_loop env cp v (x # dn) = Inr u \<and>
          js_get env u sg = Inl e0"
      using h Inr by simp
    then show ?thesis by blast
  qed
qed

text \<open>
  Claim C3. Whenever the access to a segment of the path faults (the segments before
  it, \<open>done\<close>, were read without a fault and led to the value \<open>v\<close>, and reading
  \<open>segment\<close> from \<open>v\<close> throws \<open>e0\<close>), \<open>safeGet\<close> raises an error whose
  \<open>canDeleteSyncOut\<close> is true and whose message contains the path from \<open>record\<close> up
  to and including the faulting segment: it is that path between the fixed texts of the
  source, followed by the message of \<open>e0\<close>.
\<close>

theorem safeGet_fault_marked:
  assumes "split_dot path = done @ segment # rest"
    and "safeGet_loop env ''record'' record done = Inr v"
    and "js_get env v segment = Inl e0"
  shows "\<exists>e. safeGet env record path = Inl e \<and> canDeleteSyncOut e = True \<and>
           message e = ''Error on object getter on path \"'' @ path_upto (done @ [segment]) @
                       ''\", original message: '' @ message e0 \<and>
           sublist (path_upto (done @ [segment])) (message e)"
proof -
  let ?e = "e0\<lparr>canDeleteSyncOut := True,
                 message := ''Error on object getter on path \"'' @ path_upto (done @ [segment]) @
                            ''\", original message: '' @ message e0\<rparr>"
  have "safeGet env record path = Inl ?e"
    using assms by (simp add: safeGet_def safeGet_loop_append path_upto_def dot_append)
  moreover have "sublist (path_upto (done @ [segment])) (message ?e)"
    unfolding sublist_def by (intro exI [of _ "''Error on object getter on path \"''"] exI) simp
  ultimately show ?thesis by simp
qed

theorem safeGet_fault_marked_witness:
  "\<exists>e. safeGet env_utc (JObj sample_orphanBatch) ''itemBatch.id'' = Inl e \<and>
        canDeleteSyncOut e = True \<and>
        message e = ''Error on object getter on path \"record.itemBatch.id\", original message: Cannot read property id of null'' \<and>
        sublist ''record.itemBatch.id'' (message e)"
proof -
  have 1: "split_dot ''itemBatch.id'' = [''itemBatch''] @ ''id'' # []" by simp
  have 2: "safeGet_loop env_utc ''record'' (JObj sample_orphanBatch) [''itemBatch''] = Inr JNull"
    by (simp add: sample_orphanBatch_def field_def)
  have 3: "js_get env_utc JNull ''id'' = Inl (new_TypeError ''Cannot read property id of null'')"
    by (simp add: env_utc_def sample_env_def)
  show ?thesis
    using safeGet_fault_marked [OF 1 2 3] by (simp add: path_upto_def new_TypeError_def)
qed

text \<open>
  Claim C10, as the source has it. \<open>safeGet\<close> catches whatever the read of a segment
  throws, not only the TypeError of a read from \<open>null\<close> or \<open>undefined\<close>. Here the
  item batch is an object, neither \<open>null\<close> nor \<open>undefined\<close>, the accessor of its
  \<open>item\<close> throws, and \<open>safeGet\<close> raises.
\<close>

theorem safeGet_accessor_counterexample:
  "safeGet_loop env_invalidated ''record'' (JObj sample_transactionBatch) [''itemBatch''] =
     Inr (JObj [(''id'', JStr ''IB1'')]) \<and>
   JObj [(''id'', JStr ''IB1'')] \<noteq> (JNull :: int option jsval) \<and>
   JObj [(''id'', JStr ''IB1'')] \<noteq> (JUndefined :: int option jsval) \<and>
   safeGet env_invalidated (JObj sample_transactionBatch) ''itemBatch.item'' =
     Inl \<lparr>ename = ''Error'',
          message = ''Error on object getter on path \"record.itemBatch.item\", original message: Accessing object of type ItemBatch which has been invalidated or deleted'',
          canDeleteSyncOut = True\<rparr>"
  by code_simp

text \<open>
  Claim C10, amended. \<open>safeGet\<close> raises an error exactly when the read of some segment
  throws: the value the segment is read from is \<open>null\<close> or \<open>undefined\<close>, or it is
  another value, the segment is none of its data properties and what the host finds for
  it, an accessor, throws. When no read throws \<open>safeGet\<close> returns; and when the last
  segment is read from a value that is neither \<open>null\<close> nor \<open>undefined\<close> and has no
  such property (no data property, and the host finds \<open>undefined\<close>), the result is
  \<open>undefined\<close> and nothing is raised.
\<close>

theorem safeGet_raises_iff_read_throws:
  "((\<exists>e. safeGet env record path = Inl e) =
      (\<exists>done segment rest v. split_dot path = done @ segment # rest \<and>
          safeGet_loop env ''record'' record done = Inr v \<and>
          (v = JNull \<or> v = JUndefined \<or>
           own_property v segment = None \<and> (\<exists>e0. member env v segment = Inl e0)))) \<and>
   (\<forall>done segment v. split_dot path = done @ [segment] \<and>
        safeGet_loop env ''record'' record done = Inr v \<and> v \<noteq> JNull \<and> v \<noteq> JUndefined \<and>
        own_property v segment = None \<and> member env v segment = Inr JUndefined \<longrightarrow>
      safeGet env record path = Inr JUndefined)"
proof (intro conjI allI impI)
  show "(\<exists>e. safeGet env record path = Inl e) =
      (\<exists>done segment rest v. split_dot path = done @ segment # rest \<and>
          safeGet_loop env ''record'' record done = Inr v \<and>
          (v = JNull \<or> v = JUndefined \<or>
           own_property v segment = None \<and> (\<exists>e0. member env v segment = Inl e0)))"
  proof
    assume "\<exists>e. safeGet env record path = Inl e"
    then obtain e where "safeGet_loop env ''record'' record (split_dot path) = Inl e"
      by (auto simp: safeGet_def)
    from safeGet_loop_Inl_split [OF this] obtain dn sg rs w e0 where
      h: "split_dot path = dn @ sg # rs" "safeGet_loop env ''record'' record dn = Inr w"
         "js_get env w sg = Inl e0" by blast
    from h(3) have "w = JNull \<or> w = JUndefined \<or>
        own_property w sg = None \<and> (\<exists>e0. member env w sg = Inl e0)"
      using js_get_Inl_iff [of env w sg] by blast
    with h(1,2) show "\<exists>done segment rest v. split_dot path = done @ segment # rest \<and>
          safeGet_loop env ''record'' record done = Inr v \<and>
          (v = JNull \<or> v = JUndefined \<or>
           own_property v segment = None \<and> (\<exists>e0. member env v segment = Inl e0))"
      by blast
  next
    assume "\<exists>done segment rest v. split_dot path = done @ segment # rest \<and>
          safeGet_loop env ''record'' record done = Inr v \<and>
          (v = JNull \<or> v = JUndefined \<or>
           own_property v segment = None \<and> (\<exists>e0. member env v segment = Inl e0))"
    then obtain dn sg rs w where
      h: "split_dot path = dn @ sg # rs" "safeGet_loop env ''record'' record dn = Inr w"
         "w = JNull \<or> w = JUndefined \<or>
          own_property w sg = None \<and> (\<exists>e0. member env w sg = Inl e0)" by blast
    from h(3) obtain e0 where "js_get env w sg = Inl e0"
      using js_get_Inl_iff [of env w sg] by blast
    then show "\<exists>e. safeGet env record path = Inl e"
      using h by (simp add: safeGet_def safeGet_loop_append)
  qed
next
  fix dn sg v
  assume a: "split_dot path = dn @ [sg] \<and>
        safeGet_loop env ''record'' record dn = Inr v \<and> v \<noteq> JNull \<and> v \<noteq> JUndefined \<and>
        own_property v sg = None \<and> member env v sg = Inr JUndefined"
  then have "js_get env v sg = Inr JUndefined"
    by (cases v) auto
  with a show "safeGet env record path = Inr JUndefined"
    by (simp add: safeGet_def safeGet_loop_append)
qed

theorem safeGet_raises_iff_read_throws_witness:
  "(\<exists>e. safeGet env_utc (JObj sample_orphanBatch) ''itemBatch.id'' = Inl e) \<and>
   (\<exists>e. safeGet env_invalidated (JObj sample_transactionBatch) ''itemBatch.item'' = Inl e) \<and>
   safeGet env_utc (JObj sample_transactionBatch) ''itemBatch.code'' = Inr JUndefined \<and>
   safeGet env_utc (JObj sample_transactionBatch) ''itemName.length'' = Inr (JNum (Some 11))"
proof -
  have 1: "split_dot ''itemBatch.id'' = [''itemBatch''] @ ''id'' # []" by simp
  have 2: "safeGet_loop env_utc ''record'' (JObj sample_orphanBatch) [''itemBatch''] = Inr JNull"
    by code_simp
  have a: "\<exists>e. safeGet env_utc (JObj sample_orphanBatch) ''itemBatch.id'' = Inl e"
    using safeGet_raises_iff_read_throws [of env_utc "JObj sample_orphanBatch" "''itemBatch.id''"]
      1 2 by blast
  have 3: "split_dot ''itemBatch.item'' = [''itemBatch''] @ ''item'' # []" by simp
  have 4: "safeGet_loop env_invalidated ''record'' (JObj sample_transactionBatch) [''itemBatch''] =
             Inr (JObj [(''id'', JStr ''IB1'')])"
    by code_simp
  have 5: "own_property (JObj [(''id'', JStr ''IB1'' :: int option jsval)]) ''item'' = None"
    by code_simp
  have 6: "\<exists>e0. member env_invalidated (JObj [(''id'', JStr ''IB1'')]) ''item'' = Inl e0"
    by (simp add: env_invalidated_def)
  have b: "\<exists>e. safeGet env_invalidated (JObj sample_transactionBatch) ''itemBatch.item'' = Inl e"
    using safeGet_raises_iff_read_throws
      [of env_invalidated "JObj sample_transactionBatch" "''itemBatch.item''"] 3 4 5 6
    by blast
  have 7: "split_dot ''itemBatch.code'' = [''itemBatch''] @ [''code'']" by simp
  have 8: "safeGet_loop env_utc ''record'' (JObj sample_transactionBatch) [''itemBatch''] =
             Inr (JObj [(''id'', JStr ''IB1'')])"
    by code_simp
  have 9: "own_property (JObj [(''id'', JStr ''IB1'' :: int option jsval)]) ''code'' = None"
          "member env_utc (JObj [(''id'', JStr ''IB1'')]) ''code'' = Inr JUndefined"
    by code_simp+
  have c: "safeGet env_utc (JObj sample_transactionBatch) ''itemBatch.code'' = Inr JUndefined"
    using safeGet_raises_iff_read_throws
      [of env_utc "JObj sample_transactionBatch" "''itemBatch.code''"] 7 8 9
    by blast
  have d: "safeGet env_utc (JObj sample_transactionBatch) ''itemName.length'' =
           Inr (JNum (Some 11))"
    by code_simp
  from a b c d show ?thesis by simp
qed

section \<open>The envelope builder: deletes, lookups and escalation\<close>

lemma notifications_append: "notifications (xs @ ys) = notifications xs @ notifications ys"
  by (induction xs rule: notifications.induct) auto

lemma queries_append: "queries (xs @ ys) = queries xs @ queries ys"
  by (induction xs rule: queries.induct) auto

lemmas sample_defs =
  env_utc_def env_nzdt_def env_notify_throws_def sample_env_def sample_database_def
  sample_change_def sample_requisition_def sample_transactionBatch_def sample_orphanBatch_def
  filtered_id_def field_def

text \<open>
  Claim C2. A sync out record that passes the guards, whose record type and change type
  the vocabulary tables translate, and whose change type is \<open>CHANGE_TYPES.DELETE\<close>:
  \<open>generateSyncJson\<close> returns the envelope of \<open>SyncID\<close>, \<open>RecordType\<close>,
  \<open>RecordID\<close>, \<open>SyncType\<close> and \<open>StoreID\<close>, with no \<open>Data\<close>, whatever the
  database holds, and the log of calls is as it was: the database has not been queried.
\<close>

theorem delete_envelope_without_lookup:
  assumes "well_formed r"
    and "translate env RECORD_TYPES (JStr (recordType_of r)) JUndefined = Inr rt"
    and "translate env SYNC_TYPES (JStr (changeType_of r)) JUndefined = Inr st"
    and "changeType_of r = CHANGE_TYPES_DELETE env"
  shows "\<exists>envelope. generateSyncJson env database settings (Some r) log = (Inr envelope, log) \<and>
           envelope = [(''SyncID'', JStr (id_of r)), (''RecordType'', rt),
                       (''RecordID'', JStr (recordId_of r)), (''SyncType'', st),
                       (''StoreID'', settings THIS_STORE_ID)] \<and>
           map_of envelope ''Data'' = None \<and>
           queries (snd (generateSyncJson env database settings (Some r) log)) = queries log"
  using assms by (simp add: generateSyncJson_def well_formed_def Let_def)

theorem delete_envelope_without_lookup_witness:
  "generateSyncJson env_utc sample_database sample_settings
     (Some (sample_change ''delete'' ''Stocktake'' ''ST1'')) [] =
     (Inr [(''SyncID'', JStr ''S1''), (''RecordType'', JStr ''Stocktake''),
           (''RecordID'', JStr ''ST1''), (''SyncType'', JStr ''D''),
           (''StoreID'', JStr ''STORE1'')], [])"
proof -
  have 1: "well_formed (sample_change ''delete'' ''Stocktake'' ''ST1'')"
    by (simp add: well_formed_def sample_change_def)
  have 2: "translate env_utc RECORD_TYPES
             (JStr (recordType_of (sample_change ''delete'' ''Stocktake'' ''ST1''))) JUndefined =
           Inr (JStr ''Stocktake'')"
    by (simp add: sample_defs)
  have 3: "translate env_utc SYNC_TYPES
             (JStr (changeType_of (sample_change ''delete'' ''Stocktake'' ''ST1''))) JUndefined =
           Inr (JStr ''D'')"
    by (simp add: sample_defs)
  have 4: "changeType_of (sample_change ''delete'' ''Stocktake'' ''ST1'') =
           CHANGE_TYPES_DELETE env_utc"
    by (simp add: sample_defs)
  show ?thesis
    using delete_envelope_without_lookup [OF 1 2 3 4, of sample_database sample_settings "[]"]
    by (simp add: sample_change_def)
qed

text \<open>
  What \<open>generateSyncJson\<close> does with a record that passes the guards and is not a
  delete, by the number of entities the lookup finds.
\<close>

lemma generateSyncJson_lookup:
  assumes "well_formed r"
    and "translate env RECORD_TYPES (JStr (recordType_of r)) JUndefined = Inr rt"
    and "translate env SYNC_TYPES (JStr (changeType_of r)) JUndefined = Inr st"
    and "changeType_of r \<noteq> CHANGE_TYPES_DELETE env"
    and "changeType_of r \<noteq> ''delete''"
  shows "generateSyncJson env database settings (Some r) log =
     (case filtered_id (database (recordType_of r)) (recordId_of r) of
        [] \<Rightarrow>
          (Inl (new_Error (recordType_of r @ '' with id = '' @ recordId_of r @ '' missing'')),
           log @ [Query (recordType_of r) (recordId_of r)])
      | [record] \<Rightarrow>
          (case generateSyncData env settings (recordType_of r) record of
             Inr syncData \<Rightarrow>
               (Inr ([(''SyncID'', JStr (id_of r)), (''RecordType'', rt),
                      (''RecordID'', JStr (recordId_of r)), (''SyncType'', st),
                      (''StoreID'', settings THIS_STORE_ID), (''Data'', JObj syncData)]),
                log @ [Query (recordType_of r) (recordId_of r)])
           | Inl error \<Rightarrow>
               (case notify env (error\<lparr>message :=
                        diagnosticMessage env settings r (message error)\<rparr>) of
                  Some fault \<Rightarrow>
                    (Inl fault,
                     log @ [Query (recordType_of r) (recordId_of r),
                            Notify (error\<lparr>message :=
                              diagnosticMessage env settings r (message error)\<rparr>)])
                | None \<Rightarrow>
                    (Inl (error\<lparr>message := userMessage (message error)\<rparr>),
                     log @ [Query (recordType_of r) (recordId_of r),
                            Notify (error\<lparr>message :=
                              diagnosticMessage env settings r (message error)\<rparr>)])))
      | _ \<Rightarrow>
          (Inl (new_Error (''Multiple '' @ recordType_of r @ '' records with id = '' @
                           recordId_of r)),
           log @ [Query (recordType_of r) (recordId_of r)]))"
  using assms
  by (simp add: generateSyncJson_def well_formed_def Let_def
           split: list.split sum.split option.split)

text \<open>
  Claim C1, as the source has it. The claim's one report to bugsnag is not made: the two
  throws of lines 57 and 60 stand before the \<open>try\<close> block, so the error reaches the
  caller without \<open>notify\<close> being called. Here a lookup finds nothing and another
  finds two entities; each raises its error, and the log holds the query alone.
\<close>

theorem lookup_failure_reported_counterexample:
  "filtered_id (sample_database ''Stocktake'') ''ST1'' = [] \<and>
   generateSyncJson env_utc sample_database sample_settings
     (Some (sample_change ''update'' ''Stocktake'' ''ST1'')) [] =
     (Inl (new_Error ''Stocktake with id = ST1 missing''), [Query ''Stocktake'' ''ST1'']) \<and>
   length (notifications (snd (generateSyncJson env_utc sample_database sample_settings
     (Some (sample_change ''update'' ''Stocktake'' ''ST1'')) []))) \<noteq> 1 \<and>
   length (filtered_id (sample_database ''ItemBatch'') ''IB1'') = 2 \<and>
   generateSyncJson env_utc sample_database sample_settings
     (Some (sample_change ''update'' ''ItemBatch'' ''IB1'')) [] =
     (Inl (new_Error ''Multiple ItemBatch records with id = IB1''), [Query ''ItemBatch'' ''IB1'']) \<and>
   length (notifications (snd (generateSyncJson env_utc sample_database sample_settings
     (Some (sample_change ''update'' ''ItemBatch'' ''IB1'')) []))) \<noteq> 1"
  by (simp add: generateSyncJson_def sample_defs Let_def)

text \<open>
  Claim C1, amended. For a sync out record that passes the guards, is translated by the
  vocabulary tables and is not a delete: when the lookup finds no entity the builder
  raises an \<open>Error\<close> with the message \<open>\<dots> with id = \<dots> missing\<close>, when it finds two
  or more it raises an \<open>Error\<close> with the message \<open>Multiple \<dots> records with id = \<dots>\<close>,
  and in both cases it has queried the database once and made no report to bugsnag.
\<close>

theorem lookup_failure_not_reported:
  assumes "well_formed r"
    and "translate env RECORD_TYPES (JStr (recordType_of r)) JUndefined = Inr rt"
    and "translate env SYNC_TYPES (JStr (changeType_of r)) JUndefined = Inr st"
    and "changeType_of r \<noteq> CHANGE_TYPES_DELETE env"
    and "changeType_of r \<noteq> ''delete''"
  shows "(filtered_id (database (recordType_of r)) (recordId_of r) = [] \<longrightarrow>
            generateSyncJson env database settings (Some r) log =
              (Inl (new_Error (recordType_of r @ '' with id = '' @ recordId_of r @ '' missing'')),
               log @ [Query (recordType_of r) (recordId_of r)])) \<and>
         (2 \<le> length (filtered_id (database (recordType_of r)) (recordId_of r)) \<longrightarrow>
            generateSyncJson env database settings (Some r) log =
              (Inl (new_Error (''Multiple '' @ recordType_of r @ '' records with id = '' @
                               recordId_of r)),
               log @ [Query (recordType_of r) (recordId_of r)])) \<and>
         (length (filtered_id (database (recordType_of r)) (recordId_of r)) \<noteq> 1 \<longrightarrow>
            notifications (snd (generateSyncJson env database settings (Some r) log)) =
              notifications log)"
proof -
  note eq = generateSyncJson_lookup [OF assms, of database settings log]
  show ?thesis
  proof (cases "filtered_id (database (recordType_of r)) (recordId_of r)")
    case Nil
    then show ?thesis using eq by (simp add: notifications_append)
  next
    case (Cons a as)
    then show ?thesis using eq by (cases as) (simp_all add: notifications_append)
  qed
qed

theorem lookup_failure_not_reported_witness:
  "generateSyncJson env_utc sample_database sample_settings
     (Some (sample_change ''update'' ''Stocktake'' ''ST1'')) [] =
     (Inl (new_Error ''Stocktake with id = ST1 missing''), [Query ''Stocktake'' ''ST1'']) \<and>
   generateSyncJson env_utc sample_database sample_settings
     (Some (sample_change ''update'' ''ItemBatch'' ''IB1'')) [] =
     (Inl (new_Error ''Multiple ItemBatch records with id = IB1''), [Query ''ItemBatch'' ''IB1'']) \<and>
   notifications (snd (generateSyncJson env_utc sample_database sample_settings
     (Some (sample_change ''update'' ''ItemBatch'' ''IB1'')) [])) = []"
proof -
  have a: "well_formed (sample_change ''update'' ''Stocktake'' ''ST1'')"
          "translate env_utc RECORD_TYPES
             (JStr (recordType_of (sample_change ''update'' ''Stocktake'' ''ST1''))) JUndefined =
           Inr (JStr ''Stocktake'')"
          "translate env_utc SYNC_TYPES
             (JStr (changeType_of (sample_change ''update'' ''Stocktake'' ''ST1''))) JUndefined =
           Inr (JStr ''U'')"
          "changeType_of (sample_change ''update'' ''Stocktake'' ''ST1'') \<noteq>
           CHANGE_TYPES_DELETE env_utc"
          "changeType_of (sample_change ''update'' ''Stocktake'' ''ST1'') \<noteq> ''delete''"
    by (simp_all add: well_formed_def sample_defs)
  have b: "well_formed (sample_change ''update'' ''ItemBatch'' ''IB1'')"
          "translate env_utc RECORD_TYPES
             (JStr (recordType_of (sample_change ''update'' ''ItemBatch'' ''IB1''))) JUndefined =
           Inr (JStr ''ItemBatch'')"
          "translate env_utc SYNC_TYPES
             (JStr (changeType_of (sample_change ''update'' ''ItemBatch'' ''IB1''))) JUndefined =
           Inr (JStr ''U'')"
          "changeType_of (sample_change ''update'' ''ItemBatch'' ''IB1'') \<noteq>
           CHANGE_TYPES_DELETE env_utc"
          "changeType_of (sample_change ''update'' ''ItemBatch'' ''IB1'') \<noteq> ''delete''"
    by (simp_all add: well_formed_def sample_defs)
  have c: "filtered_id (sample_database ''Stocktake'') ''ST1'' = []"
          "length (filtered_id (sample_database ''ItemBatch'') ''IB1'') = 2"
    by (simp_all add: sample_defs)
  show ?thesis
    using lookup_failure_not_reported [OF a, of sample_database sample_settings "[]"]
          lookup_failure_not_reported [OF b, of sample_database sample_settings "[]"] c
    by (simp add: sample_change_def)
qed

section \<open>The envelope builder: escalation of a projection failure\<close>

text \<open>
  The projection of the batch whose item batch is \<open>null\<close> fails in the safe navigator,
  on any host.
\<close>

lemma orphan_projection:
  "generateSyncData env settings ''TransactionBatch'' sample_orphanBatch =
   Inl \<lparr>ename = ''TypeError'',
        message = ''Error on object getter on path \"record.itemBatch.id\", original message: '' @
                  nullAccessMessage env JNull ''id'',
        canDeleteSyncOut = True\<rparr>"
  by (simp add: generateSyncData_def sample_orphanBatch_def field_def
        getDateString_def safeGet_def js_String_def new_TypeError_def)

lemma orphan_change_utc:
  "well_formed (sample_change ''update'' ''TransactionBatch'' ''TB2'')"
  "translate env_utc RECORD_TYPES
     (JStr (recordType_of (sample_change ''update'' ''TransactionBatch'' ''TB2''))) JUndefined =
   Inr (JStr ''TransactionBatch'')"
  "translate env_utc SYNC_TYPES
     (JStr (changeType_of (sample_change ''update'' ''TransactionBatch'' ''TB2''))) JUndefined =
   Inr (JStr ''U'')"
  "changeType_of (sample_change ''update'' ''TransactionBatch'' ''TB2'') \<noteq>
   CHANGE_TYPES_DELETE env_utc"
  "changeType_of (sample_change ''update'' ''TransactionBatch'' ''TB2'') \<noteq> ''delete''"
  "filtered_id (sample_database
       (recordType_of (sample_change ''update'' ''TransactionBatch'' ''TB2'')))
     (recordId_of (sample_change ''update'' ''TransactionBatch'' ''TB2'')) = [sample_orphanBatch]"
  by (simp_all add: well_formed_def sample_defs)

lemma orphan_change_throws:
  "well_formed (sample_change ''update'' ''TransactionBatch'' ''TB2'')"
  "translate env_notify_throws RECORD_TYPES
     (JStr (recordType_of (sample_change ''update'' ''TransactionBatch'' ''TB2''))) JUndefined =
   Inr (JStr ''TransactionBatch'')"
  "translate env_notify_throws SYNC_TYPES
     (JStr (changeType_of (sample_change ''update'' ''TransactionBatch'' ''TB2''))) JUndefined =
   Inr (JStr ''U'')"
  "changeType_of (sample_change ''update'' ''TransactionBatch'' ''TB2'') \<noteq>
   CHANGE_TYPES_DELETE env_notify_throws"
  "changeType_of (sample_change ''update'' ''TransactionBatch'' ''TB2'') \<noteq> ''delete''"
  "filtered_id (sample_database
       (recordType_of (sample_change ''update'' ''TransactionBatch'' ''TB2'')))
     (recordId_of (sample_change ''update'' ''TransactionBatch'' ''TB2'')) = [sample_orphanBatch]"
  by (simp_all add: well_formed_def sample_defs)

text \<open>
  Claim C4. When the projection of the entity raises an error that carries
  \<open>canDeleteSyncOut = true\<close>, and the report to bugsnag returns, the error that
  \<open>generateSyncJson\<close> raises after rewriting the message still carries
  \<open>canDeleteSyncOut = true\<close>; its message is the user message around the original one.
\<close>

theorem marker_survives_escalation:
  assumes "well_formed r"
    and "translate env RECORD_TYPES (JStr (recordType_of r)) JUndefined = Inr rt"
    and "translate env SYNC_TYPES (JStr (changeType_of r)) JUndefined = Inr st"
    and "changeType_of r \<noteq> CHANGE_TYPES_DELETE env"
    and "changeType_of r \<noteq> ''delete''"
    and "filtered_id (database (recordType_of r)) (recordId_of r) = [entity]"
    and "generateSyncData env settings (recordType_of r) entity = Inl error"
    and "canDeleteSyncOut error = True"
    and "notify env (error\<lparr>message := diagnosticMessage env settings r (message error)\<rparr>) = None"
  shows "\<exists>e. fst (generateSyncJson env database settings (Some r) log) = Inl e \<and>
           canDeleteSyncOut e = True \<and> message e = userMessage (message error)"
  using generateSyncJson_lookup [OF assms(1-5), of database settings log] assms(6-9)
  by simp

theorem marker_survives_escalation_witness:
  "\<exists>e. fst (generateSyncJson env_utc sample_database sample_settings
              (Some (sample_change ''update'' ''TransactionBatch'' ''TB2'')) []) = Inl e \<and>
        canDeleteSyncOut e = True \<and>
        message e = ''There was an error syncing. Contact mSupply mobile support. Error on object getter on path \"record.itemBatch.id\", original message: Cannot read property id of null''"
proof -
  let ?r = "sample_change ''update'' ''TransactionBatch'' ''TB2''"
  let ?error = "\<lparr>ename = ''TypeError'',
        message = ''Error on object getter on path \"record.itemBatch.id\", original message: '' @
                  nullAccessMessage env_utc JNull ''id'',
        canDeleteSyncOut = True\<rparr>"
  have p: "generateSyncData env_utc sample_settings (recordType_of ?r) sample_orphanBatch = Inl ?error"
    using orphan_projection [of env_utc sample_settings] by (simp add: sample_change_def)
  have m: "canDeleteSyncOut ?error = True" by simp
  have n: "notify env_utc (?error\<lparr>message :=
             diagnosticMessage env_utc sample_settings ?r (message ?error)\<rparr>) = None"
    by (simp add: env_utc_def sample_env_def)
  show ?thesis
    using marker_survives_escalation
      [where r = "sample_change ''update'' ''TransactionBatch'' ''TB2''" and env = env_utc
         and database = sample_database and settings = sample_settings
         and entity = sample_orphanBatch and log = "[]", OF orphan_change_utc p m n]
    by (simp add: userMessage_def env_utc_def sample_env_def)
qed

text \<open>
  Claim C8, as the source has it. The call of \<open>notify\<close> stands in the catch block with
  no \<open>try\<close> of its own. Here the projection fails in the safe navigator, the bugsnag
  client throws, and what reaches the caller is the client's error, not the error of the
  projection.
\<close>

theorem reporter_fault_masks_counterexample:
  "generateSyncData env_notify_throws sample_settings ''TransactionBatch'' sample_orphanBatch =
     Inl \<lparr>ename = ''TypeError'',
          message = ''Error on object getter on path \"record.itemBatch.id\", original message: Cannot read property id of null'',
          canDeleteSyncOut = True\<rparr> \<and>
   filtered_id (sample_database ''TransactionBatch'') ''TB2'' = [sample_orphanBatch] \<and>
   notify env_notify_throws
     (\<lparr>ename = ''TypeError'',
       message = diagnosticMessage env_notify_throws sample_settings
         (sample_change ''update'' ''TransactionBatch'' ''TB2'')
         ''Error on object getter on path \"record.itemBatch.id\", original message: Cannot read property id of null'',
       canDeleteSyncOut = True\<rparr>) = Some (new_Error ''Network request failed'') \<and>
   fst (generateSyncJson env_notify_throws sample_database sample_settings
          (Some (sample_change ''update'' ''TransactionBatch'' ''TB2'')) []) =
     Inl (new_Error ''Network request failed'')"
proof -
  have e: "env_notify_throws =
      sample_env 0 '' GMT+0000 (UTC)''\<lparr>notify := (\<lambda>e. Some (new_Error ''Network request failed''))\<rparr>"
    by (simp add: env_notify_throws_def env_utc_def)
  have p: "generateSyncData env_notify_throws sample_settings ''TransactionBatch'' sample_orphanBatch =
     Inl \<lparr>ename = ''TypeError'',
          message = ''Error on object getter on path \"record.itemBatch.id\", original message: Cannot read property id of null'',
          canDeleteSyncOut = True\<rparr>"
    using orphan_projection [of env_notify_throws sample_settings]
    by (simp add: e sample_env_def)
  have p': "generateSyncData env_notify_throws sample_settings
      (recordType_of (sample_change ''update'' ''TransactionBatch'' ''TB2'')) sample_orphanBatch =
     Inl \<lparr>ename = ''TypeError'',
          message = ''Error on object getter on path \"record.itemBatch.id\", original message: Cannot read property id of null'',
          canDeleteSyncOut = True\<rparr>"
    using p by (simp add: sample_change_def)
  have f: "filtered_id (sample_database ''TransactionBatch'') ''TB2'' = [sample_orphanBatch]"
    by (simp add: sample_defs)
  have n: "\<And>x. notify env_notify_throws x = Some (new_Error ''Network request failed'')"
    by (simp add: e)
  have g: "fst (generateSyncJson env_notify_throws sample_database sample_settings
          (Some (sample_change ''update'' ''TransactionBatch'' ''TB2'')) []) =
     Inl (new_Error ''Network request failed'')"
    using generateSyncJson_lookup [where r = "sample_change ''update'' ''TransactionBatch'' ''TB2''"
         and env = env_notify_throws and database = sample_database
         and settings = sample_settings and log = "[]", OF orphan_change_throws(1-5)]
      orphan_change_throws(6) p' n
    by simp
  from p f n g show ?thesis by simp
qed

text \<open>
  Claim C8, amended. When the projection of the entity fails, \<open>notify\<close> is called once,
  with the error under its diagnostic message. When \<open>notify\<close> returns, the error of
  the projection is raised, under the user message; when \<open>notify\<close> throws, its fault is
  not caught and reaches the caller in place of the error of the projection.
\<close>

theorem reporter_fault_propagates:
  assumes "well_formed r"
    and "translate env RECORD_TYPES (JStr (recordType_of r)) JUndefined = Inr rt"
    and "translate env SYNC_TYPES (JStr (changeType_of r)) JUndefined = Inr st"
    and "changeType_of r \<noteq> CHANGE_TYPES_DELETE env"
    and "changeType_of r \<noteq> ''delete''"
    and "filtered_id (database (recordType_of r)) (recordId_of r) = [entity]"
    and "generateSyncData env settings (recordType_of r) entity = Inl error"
    and "reported = error\<lparr>message := diagnosticMessage env settings r (message error)\<rparr>"
  shows "(notify env reported = None \<longrightarrow>
            generateSyncJson env database settings (Some r) log =
              (Inl (error\<lparr>message := userMessage (message error)\<rparr>),
               log @ [Query (recordType_of r) (recordId_of r), Notify reported])) \<and>
         (\<forall>fault. notify env reported = Some fault \<longrightarrow>
            generateSyncJson env database settings (Some r) log =
              (Inl fault, log @ [Query (recordType_of r) (recordId_of r), Notify reported]))"
  using generateSyncJson_lookup [OF assms(1-5), of database settings log] assms(6-8)
  by simp

theorem reporter_fault_propagates_witness:
  "fst (generateSyncJson env_notify_throws sample_database sample_settings
          (Some (sample_change ''update'' ''TransactionBatch'' ''TB2'')) []) =
     Inl (new_Error ''Network request failed'') \<and>
   fst (generateSyncJson env_utc sample_database sample_settings
          (Some (sample_change ''update'' ''TransactionBatch'' ''TB2'')) []) =
     Inl \<lparr>ename = ''TypeError'',
          message = ''There was an error syncing. Contact mSupply mobile support. Error on object getter on path \"record.itemBatch.id\", original message: Cannot read property id of null'',
          canDeleteSyncOut = True\<rparr>"
proof -
  let ?r = "sample_change ''update'' ''TransactionBatch'' ''TB2''"
  have e: "env_notify_throws =
      sample_env 0 '' GMT+0000 (UTC)''\<lparr>notify := (\<lambda>e. Some (new_Error ''Network request failed''))\<rparr>"
    by (simp add: env_notify_throws_def env_utc_def)
  have p1: "generateSyncData env_notify_throws sample_settings (recordType_of ?r) sample_orphanBatch =
     Inl \<lparr>ename = ''TypeError'',
          message = ''Error on object getter on path \"record.itemBatch.id\", original message: '' @
                  nullAccessMessage env_notify_throws JNull ''id'',
          canDeleteSyncOut = True\<rparr>"
    using orphan_projection [of env_notify_throws sample_settings] by (simp add: sample_change_def)
  have p2: "generateSyncData env_utc sample_settings (recordType_of ?r) sample_orphanBatch =
     Inl \<lparr>ename = ''TypeError'',
          message = ''Error on object getter on path \"record.itemBatch.id\", original message: '' @
                  nullAccessMessage env_utc JNull ''id'',
          canDeleteSyncOut = True\<rparr>"
    using orphan_projection [of env_utc sample_settings] by (simp add: sample_change_def)
  have n1: "\<And>x. notify env_notify_throws x = Some (new_Error ''Network request failed'')"
    by (simp add: e)
  have n2: "\<And>x. notify env_utc x = None"
    by (simp add: env_utc_def sample_env_def)
  have a: "fst (generateSyncJson env_notify_throws sample_database sample_settings (Some ?r) []) =
     Inl (new_Error ''Network request failed'')"
    using reporter_fault_propagates
      [where r = "sample_change ''update'' ''TransactionBatch'' ''TB2''" and env = env_notify_throws
         and database = sample_database and settings = sample_settings
         and entity = sample_orphanBatch and log = "[]", OF orphan_change_throws p1 refl] n1
    by simp
  have b: "fst (generateSyncJson env_utc sample_database sample_settings (Some ?r) []) =
     Inl \<lparr>ename = ''TypeError'',
          message = ''There was an error syncing. Contact mSupply mobile support. Error on object getter on path \"record.itemBatch.id\", original message: Cannot read property id of null'',
          canDeleteSyncOut = True\<rparr>"
    using reporter_fault_propagates
      [where r = "sample_change ''update'' ''TransactionBatch'' ''TB2''" and env = env_utc
         and database = sample_database and settings = sample_settings
         and entity = sample_orphanBatch and log = "[]", OF orphan_change_utc p2 refl] n2
    by (simp add: userMessage_def env_utc_def sample_env_def)
  from a b show ?thesis by simp
qed

section \<open>Date formatting\<close>









section \<open>The field projector: references and rendered values\<close>

text \<open>What a successful object literal holds under a name.\<close>

lemma object_literal_lookup:
  "object_literal fs = Inr data \<Longrightarrow> map_of data k = map_option projr (map_of fs k)"
  by (induction fs arbitrary: data) (auto split: sum.splits)

lemma object_literal_entry:
  "object_literal fs = Inr data \<Longrightarrow> map_of fs k = Some c \<Longrightarrow>
     \<exists>v. c = Inr v \<and> map_of data k = Some v"
  by (induction fs arbitrary: data) (auto split: sum.splits if_splits)

lemma object_literal_values:
  "object_literal fs = Inr data \<Longrightarrow> (k, v) \<in> set data \<Longrightarrow> (k, Inr v) \<in> set fs"
  by (induction fs arbitrary: data) (auto split: sum.splits)

lemma and_id_falsy: "\<not> truthy env a \<Longrightarrow> and_id env a = Inr a"
  by (simp add: and_id_def)

lemma getDateString_string: "getDateString env d = Inr v \<Longrightarrow> typeof v = ''string''"
  by (auto simp: getDateString_def split: if_splits sum.splits)

lemma getTimeString_string: "getTimeString env d = Inr v \<Longrightarrow> typeof v = ''string''"
  by (auto simp: getTimeString_def split: if_splits sum.splits)

lemma getDateString_string': "Inr v = getDateString env d \<Longrightarrow> typeof v = ''string''"
  using getDateString_string [of env d v] by simp

lemma getTimeString_string': "Inr v = getTimeString env d \<Longrightarrow> typeof v = ''string''"
  using getTimeString_string [of env d v] by simp

text \<open>
  Claim C6, as the source has it. \<open>a && a.id\<close> is \<open>a\<close> itself when \<open>a\<close> is
  falsy. Realm reads an unset link as \<open>null\<close>, and then the field is set to
  \<open>null\<close>: the requisition with no other store gets \<open>name_ID: null\<close>.
\<close>

theorem null_reference_counterexample:
  "field sample_requisition ''otherStoreName'' = JNull \<and>
   generateSyncData env_utc sample_settings ''Requisition'' sample_requisition =
     Inr [(''ID'', JStr ''R1''), (''date_entered'', JStr ''2024-01-15T00:00:00''),
          (''user_ID'', JStr ''U1''), (''name_ID'', JNull),
          (''status'', JStr ''suggested''), (''daysToSupply'', JStr ''30''),
          (''store_ID'', JStr ''STORE1''), (''serial_number'', JStr ''7''),
          (''requester_reference'', JStr ''ref''),
          (''comment'', JStr ''none''), (''type'', JStr ''request'')] \<and>
   map_of (projr (generateSyncData env_utc sample_settings ''Requisition'' sample_requisition))
     ''name_ID'' = Some JNull"
  by code_simp

text \<open>
  Claim C6, amended. In a payload the projector has produced, a field built as
  \<open>record.ref && record.ref.id\<close> whose reference is falsy carries the reference's own
  value: \<open>undefined\<close> when the reference is \<open>undefined\<close> or missing (a property that
  JSON leaves out), \<open>null\<close> when it is \<open>null\<close>. The field
  \<open>Transaction.requisition_ID\<close>, built with a conditional of its own, is
  \<open>undefined\<close> for every falsy reference.
\<close>

theorem falsy_reference_passed_through:
  assumes "generateSyncData env settings recordType entity = Inr data"
  shows "(\<forall>external ref. (external, ref) \<in> set (optional_references recordType) \<and>
             \<not> truthy env (field entity ref) \<longrightarrow>
           map_of data external = Some (field entity ref)) \<and>
         (recordType = ''Transaction'' \<and> \<not> truthy env (field entity ''linkedRequisition'') \<longrightarrow>
           map_of data ''requisition_ID'' = Some JUndefined)"
proof (intro conjI allI impI)
  fix external ref
  assume a: "(external, ref) \<in> set (optional_references recordType) \<and>
             \<not> truthy env (field entity ref)"
  then consider (R) "recordType = ''Requisition''"
    | (S) "recordType = ''Stocktake''"
    | (SB) "recordType = ''StocktakeBatch''"
    | (T) "recordType = ''Transaction''"
    by (auto simp: optional_references_def split: if_splits)
  then show "map_of data external = Some (field entity ref)"
  proof cases
    case R
    with a assms show ?thesis
      by (auto simp: optional_references_def generateSyncData_def and_id_falsy
               simp del: object_literal.simps
               dest!: object_literal_lookup [where k = external])
  next
    case S
    with a assms show ?thesis
      by (auto simp: optional_references_def generateSyncData_def and_id_falsy
               simp del: object_literal.simps
               dest!: object_literal_lookup [where k = external])
  next
    case SB
    with a assms show ?thesis
      by (auto simp: optional_references_def generateSyncData_def and_id_falsy
               simp del: object_literal.simps
               dest!: object_literal_lookup [where k = external])
  next
    case T
    with a assms show ?thesis
      by (auto simp: optional_references_def generateSyncData_def and_id_falsy
               simp del: object_literal.simps
               dest!: object_literal_lookup [where k = external])
  qed
next
  assume "recordType = ''Transaction'' \<and> \<not> truthy env (field entity ''linkedRequisition'')"
  with assms show "map_of data ''requisition_ID'' = Some JUndefined"
    by (auto simp: generateSyncData_def and_id_falsy bindE_def
             simp del: object_literal.simps
             dest!: object_literal_lookup [where k = "''requisition_ID''"])
qed


theorem falsy_reference_passed_through_witness:
  "\<exists>data. generateSyncData env_utc sample_settings ''Transaction'' sample_transaction = Inr data \<and>
      map_of data ''name_ID'' = Some JNull \<and> map_of data ''user_ID'' = Some JUndefined \<and>
      map_of data ''requisition_ID'' = Some JUndefined"
proof -
  have g: "generateSyncData env_utc sample_settings ''Transaction'' sample_transaction =
    Inr [(''ID'', JStr ''T9''), (''name_ID'', JNull),
      (''invoice_num'', JStr ''12''), (''comment'', JUndefined),
      (''entry_date'', JStr ''0000-00-00T00:00:00''),
      (''type'', JStr ''customer_invoice''),
      (''status'', JStr ''confirmed''), (''mode'', JStr ''store''),
      (''total'', JStr ''36''), (''their_ref'', JUndefined),
      (''confirm_date'', JStr ''2024-01-15T00:00:00''),
      (''subtotal'', JStr ''36''), (''user_ID'', JUndefined),
      (''category_ID'', JUndefined), (''confirm_time'', JStr ''13:05:09''),
      (''store_ID'', JStr ''STORE1''), (''requisition_ID'', JUndefined)]"
    by code_simp
  have 1: "(''name_ID'', ''otherParty'') \<in> set (optional_references ''Transaction'') \<and>
           \<not> truthy env_utc (field sample_transaction ''otherParty'')"
    by code_simp
  have 2: "(''user_ID'', ''enteredBy'') \<in> set (optional_references ''Transaction'') \<and>
           \<not> truthy env_utc (field sample_transaction ''enteredBy'')"
    by code_simp
  have 3: "\<not> truthy env_utc (field sample_transaction ''linkedRequisition'')"
    by code_simp
  have f: "field sample_transaction ''otherParty'' = JNull"
          "field sample_transaction ''enteredBy'' = JUndefined"
    by code_simp+
  note t = falsy_reference_passed_through [OF g]
  from t 1 have a: "map_of [(''ID'', JStr ''T9''), (''name_ID'', JNull),
      (''invoice_num'', JStr ''12''), (''comment'', JUndefined),
      (''entry_date'', JStr ''0000-00-00T00:00:00''),
      (''type'', JStr ''customer_invoice''),
      (''status'', JStr ''confirmed''), (''mode'', JStr ''store''),
      (''total'', JStr ''36''), (''their_ref'', JUndefined),
      (''confirm_date'', JStr ''2024-01-15T00:00:00''),
      (''subtotal'', JStr ''36''), (''user_ID'', JUndefined),
      (''category_ID'', JUndefined), (''confirm_time'', JStr ''13:05:09''),
      (''store_ID'', JStr ''STORE1''), (''requisition_ID'', JUndefined)] ''name_ID'' =
      Some (field sample_transaction ''otherParty'')"
    by blast
  from t 2 have b: "map_of [(''ID'', JStr ''T9''), (''name_ID'', JNull),
      (''invoice_num'', JStr ''12''), (''comment'', JUndefined),
      (''entry_date'', JStr ''0000-00-00T00:00:00''),
      (''type'', JStr ''customer_invoice''),
      (''status'', JStr ''confirmed''), (''mode'', JStr ''store''),
      (''total'', JStr ''36''), (''their_ref'', JUndefined),
      (''confirm_date'', JStr ''2024-01-15T00:00:00''),
      (''subtotal'', JStr ''36''), (''user_ID'', JUndefined),
      (''category_ID'', JUndefined), (''confirm_time'', JStr ''13:05:09''),
      (''store_ID'', JStr ''STORE1''), (''requisition_ID'', JUndefined)] ''user_ID'' =
      Some (field sample_transaction ''enteredBy'')"
    by blast
  from t 3 have c: "map_of [(''ID'', JStr ''T9''), (''name_ID'', JNull),
      (''invoice_num'', JStr ''12''), (''comment'', JUndefined),
      (''entry_date'', JStr ''0000-00-00T00:00:00''),
      (''type'', JStr ''customer_invoice''),
      (''status'', JStr ''confirmed''), (''mode'', JStr ''store''),
      (''total'', JStr ''36''), (''their_ref'', JUndefined),
      (''confirm_date'', JStr ''2024-01-15T00:00:00''),
      (''subtotal'', JStr ''36''), (''user_ID'', JUndefined),
      (''category_ID'', JUndefined), (''confirm_time'', JStr ''13:05:09''),
      (''store_ID'', JStr ''STORE1''), (''requisition_ID'', JUndefined)] ''requisition_ID'' = Some JUndefined"
    by simp
  from g a b c f show ?thesis by simp
qed

text \<open>
  Claim C7, as the source has it. The projector passes \<open>transaction.isInventoryAdjustment\<close>
  on as it is, and so the payload of a transaction batch holds a boolean.
\<close>

theorem boolean_field_counterexample:
  "generateSyncData env_utc sample_settings ''TransactionBatch'' sample_transactionBatch =
     Inr [(''ID'', JStr ''TB1''), (''transaction_ID'', JStr ''T1''),
      (''item_ID'', JStr ''I1''), (''batch'', JStr ''B7''),
      (''price_extension'', JStr ''24''), (''note'', JNull),
      (''cost_price'', JStr ''2''), (''sell_price'', JStr ''3''),
      (''expiry_date'', JStr ''0000-00-00T00:00:00''),
      (''pack_size'', JStr ''10''), (''quantity'', JStr ''12''),
      (''item_line_ID'', JStr ''IB1''), (''line_number'', JStr ''1''),
      (''item_name'', JStr ''Amoxicillin''),
      (''is_from_inventory_adjustment'', JBool True),
      (''type'', JStr ''supplier_invoice'')] \<and>
   map_of (projr (generateSyncData env_utc sample_settings ''TransactionBatch''
                    sample_transactionBatch)) ''is_from_inventory_adjustment'' =
     Some (JBool True) \<and>
   typeof (JBool True :: int option jsval) \<noteq> ''string''"
  by code_simp

text \<open>
  Claim C7, amended. In a payload the projector has produced, every numeric and date-like
  value, that is every field built with \<open>String(\<dots>)\<close>, \<open>getDateString\<close> or
  \<open>getTimeString\<close>, is a string. Every field that reads a property of the entity or a
  setting directly carries that value as it is, whatever its type, and
  \<open>TransactionBatch.is_from_inventory_adjustment\<close> carries what the read of the
  transaction's \<open>isInventoryAdjustment\<close> gave, a boolean when that is a boolean.
\<close>

theorem rendered_values_are_strings:
  assumes "generateSyncData env settings recordType entity = Inr data"
  shows "(\<forall>k v. (k, v) \<in> set data \<and> k \<in> set (stringified_fields recordType) \<longrightarrow>
            typeof v = ''string'') \<and>
         (\<forall>k p. (k, p) \<in> set (direct_fields recordType) \<longrightarrow>
            map_of data k = Some (field entity p)) \<and>
         (\<forall>k key. (k, key) \<in> set (setting_fields recordType) \<longrightarrow>
            map_of data k = Some (settings key)) \<and>
         (recordType = ''TransactionBatch'' \<longrightarrow>
            (\<exists>v. js_get env (field entity ''transaction'') ''isInventoryAdjustment'' = Inr v \<and>
                 map_of data ''is_from_inventory_adjustment'' = Some v))"
proof (intro conjI allI impI)
  fix k v
  assume a: "(k, v) \<in> set data \<and> k \<in> set (stringified_fields recordType)"
  then consider (IB) "recordType = ''ItemBatch''"
    | (NS) "recordType = ''NumberSequence''"
    | (NR) "recordType = ''NumberToReuse''"
    | (R) "recordType = ''Requisition''"
    | (RI) "recordType = ''RequisitionItem''"
    | (S) "recordType = ''Stocktake''"
    | (SB) "recordType = ''StocktakeBatch''"
    | (T) "recordType = ''Transaction''"
    | (TB) "recordType = ''TransactionBatch''"
    by (auto simp: stringified_fields_def split: if_splits)
  then show "typeof v = ''string''"
  proof cases
    case IB
    with a assms show ?thesis
      by (auto simp: stringified_fields_def generateSyncData_def js_String_def Let_def
               simp del: object_literal.simps
               dest!: object_literal_values [where k = k and v = v]
               dest: getDateString_string' getTimeString_string')
  next
    case NS
    with a assms show ?thesis
      by (auto simp: stringified_fields_def generateSyncData_def js_String_def Let_def
               simp del: object_literal.simps
               dest!: object_literal_values [where k = k and v = v]
               dest: getDateString_string' getTimeString_string')
  next
    case NR
    with a assms show ?thesis
      by (auto simp: stringified_fields_def generateSyncData_def js_String_def Let_def
               simp del: object_literal.simps
               dest!: object_literal_values [where k = k and v = v]
               dest: getDateString_string' getTimeString_string')
  next
    case R
    with a assms show ?thesis
      by (auto simp: stringified_fields_def generateSyncData_def js_String_def Let_def
               simp del: object_literal.simps
               dest!: object_literal_values [where k = k and v = v]
               dest: getDateString_string' getTimeString_string')
  next
    case RI
    with a assms show ?thesis
      by (auto simp: stringified_fields_def generateSyncData_def js_String_def Let_def
               simp del: object_literal.simps
               dest!: object_literal_values [where k = k and v = v]
               dest: getDateString_string' getTimeString_string')
  next
    case S
    with a assms show ?thesis
      by (auto simp: stringified_fields_def generateSyncData_def js_String_def Let_def
               simp del: object_literal.simps
               dest!: object_literal_values [where k = k and v = v]
               dest: getDateString_string' getTimeString_string')
  next
    case SB
    with a assms show ?thesis
      by (auto simp: stringified_fields_def generateSyncData_def js_String_def Let_def
               simp del: object_literal.simps
               dest!: object_literal_values [where k = k and v = v]
               dest: getDateString_string' getTimeString_string')
  next
    case T
    with a assms show ?thesis
      by (auto simp: stringified_fields_def generateSyncData_def js_String_def Let_def
               simp del: object_literal.simps
               dest!: object_literal_values [where k = k and v = v]
               dest: getDateString_string' getTimeString_string')
  next
    case TB
    with a assms show ?thesis
      by (auto simp: stringified_fields_def generateSyncData_def js_String_def Let_def
               simp del: object_literal.simps
               dest!: object_literal_values [where k = k and v = v]
               dest: getDateString_string' getTimeString_string')
  qed
next
  fix k p
  assume a: "(k, p) \<in> set (direct_fields recordType)"
  then consider (IB) "recordType = ''ItemBatch''"
    | (NS) "recordType = ''NumberSequence''"
    | (NR) "recordType = ''NumberToReuse''"
    | (R) "recordType = ''Requisition''"
    | (RI) "recordType = ''RequisitionItem''"
    | (S) "recordType = ''Stocktake''"
    | (SB) "recordType = ''StocktakeBatch''"
    | (T) "recordType = ''Transaction''"
    | (TB) "recordType = ''TransactionBatch''"
    by (auto simp: direct_fields_def split: if_splits)
  then show "map_of data k = Some (field entity p)"
  proof cases
    case IB
    with a assms show ?thesis
      by (auto simp: direct_fields_def generateSyncData_def Let_def
               simp del: object_literal.simps
               dest!: object_literal_lookup [where k = k])
  next
    case NS
    with a assms show ?thesis
      by (auto simp: direct_fields_def generateSyncData_def Let_def
               simp del: object_literal.simps
               dest!: object_literal_lookup [where k = k])
  next
    case NR
    with a assms show ?thesis
      by (auto simp: direct_fields_def generateSyncData_def Let_def
               simp del: object_literal.simps
               dest!: object_literal_lookup [where k = k])
  next
    case R
    with a assms show ?thesis
      by (auto simp: direct_fields_def generateSyncData_def Let_def
               simp del: object_literal.simps
               dest!: object_literal_lookup [where k = k])
  next
    case RI
    with a assms show ?thesis
      by (auto simp: direct_fields_def generateSyncData_def Let_def
               simp del: object_literal.simps
               dest!: object_literal_lookup [where k = k])
  next
    case S
    with a assms show ?thesis
      by (auto simp: direct_fields_def generateSyncData_def Let_def
               simp del: object_literal.simps
               dest!: object_literal_lookup [where k = k])
  next
    case SB
    with a assms show ?thesis
      by (auto simp: direct_fields_def generateSyncData_def Let_def
               simp del: object_literal.simps
               dest!: object_literal_lookup [where k = k])
  next
    case T
    with a assms show ?thesis
      by (auto simp: direct_fields_def generateSyncData_def Let_def
               simp del: object_literal.simps
               dest!: object_literal_lookup [where k = k])
  next
    case TB
    with a assms show ?thesis
      by (auto simp: direct_fields_def generateSyncData_def Let_def
               simp del: object_literal.simps
               dest!: object_literal_lookup [where k = k])
  qed
next
  fix k key
  assume a: "(k, key) \<in> set (setting_fields recordType)"
  then consider (IB) "recordType = ''ItemBatch''"
    | (R) "recordType = ''Requisition''"
    | (S) "recordType = ''Stocktake''"
    | (T) "recordType = ''Transaction''"
    by (auto simp: setting_fields_def split: if_splits)
  then show "map_of data k = Some (settings key)"
  proof cases
    case IB
    with a assms show ?thesis
      by (auto simp: setting_fields_def generateSyncData_def Let_def
               simp del: object_literal.simps
               dest!: object_literal_lookup [where k = k])
  next
    case R
    with a assms show ?thesis
      by (auto simp: setting_fields_def generateSyncData_def Let_def
               simp del: object_literal.simps
               dest!: object_literal_lookup [where k = k])
  next
    case S
    with a assms show ?thesis
      by (auto simp: setting_fields_def generateSyncData_def Let_def
               simp del: object_literal.simps
               dest!: object_literal_lookup [where k = k])
  next
    case T
    with a assms show ?thesis
      by (auto simp: setting_fields_def generateSyncData_def Let_def
               simp del: object_literal.simps
               dest!: object_literal_lookup [where k = k])
  qed
next
  assume "recordType = ''TransactionBatch''"
  with assms
  show "\<exists>v. js_get env (field entity ''transaction'') ''isInventoryAdjustment'' = Inr v \<and>
            map_of data ''is_from_inventory_adjustment'' = Some v"
    by (auto simp: generateSyncData_def Let_def
             simp del: object_literal.simps js_get.simps
             dest!: object_literal_entry [where k = "''is_from_inventory_adjustment''"])
qed

theorem rendered_values_are_strings_witness:
  "\<exists>data. generateSyncData env_utc sample_settings ''TransactionBatch''
             sample_transactionBatch = Inr data \<and>
      (''pack_size'', JStr ''10'') \<in> set data \<and>
      typeof (JStr ''10'' :: int option jsval) = ''string'' \<and>
      map_of data ''batch'' = Some (JStr ''B7'') \<and>
      map_of data ''note'' = Some JNull \<and>
      map_of data ''is_from_inventory_adjustment'' = Some (JBool True)"
proof -
  have g: "generateSyncData env_utc sample_settings ''TransactionBatch'' sample_transactionBatch =
    Inr [(''ID'', JStr ''TB1''), (''transaction_ID'', JStr ''T1''),
      (''item_ID'', JStr ''I1''), (''batch'', JStr ''B7''),
      (''price_extension'', JStr ''24''), (''note'', JNull),
      (''cost_price'', JStr ''2''), (''sell_price'', JStr ''3''),
      (''expiry_date'', JStr ''0000-00-00T00:00:00''),
      (''pack_size'', JStr ''10''), (''quantity'', JStr ''12''),
      (''item_line_ID'', JStr ''IB1''), (''line_number'', JStr ''1''),
      (''item_name'', JStr ''Amoxicillin''),
      (''is_from_inventory_adjustment'', JBool True),
      (''type'', JStr ''supplier_invoice'')]"
    by code_simp
  have 1: "(''pack_size'', JStr ''10'') \<in> set [(''ID'', JStr ''TB1'' :: int option jsval), (''transaction_ID'', JStr ''T1''),
      (''item_ID'', JStr ''I1''), (''batch'', JStr ''B7''),
      (''price_extension'', JStr ''24''), (''note'', JNull),
      (''cost_price'', JStr ''2''), (''sell_price'', JStr ''3''),
      (''expiry_date'', JStr ''0000-00-00T00:00:00''),
      (''pack_size'', JStr ''10''), (''quantity'', JStr ''12''),
      (''item_line_ID'', JStr ''IB1''), (''line_number'', JStr ''1''),
      (''item_name'', JStr ''Amoxicillin''),
      (''is_from_inventory_adjustment'', JBool True),
      (''type'', JStr ''supplier_invoice'')] \<and>
      ''pack_size'' \<in> set (stringified_fields ''TransactionBatch'')"
    by code_simp
  have 2: "(''batch'', ''batch'') \<in> set (direct_fields ''TransactionBatch'')"
          "(''note'', ''note'') \<in> set (direct_fields ''TransactionBatch'')"
    by code_simp+
  have 3: "field sample_transactionBatch ''batch'' = JStr ''B7''"
          "field sample_transactionBatch ''note'' = JNull"
    by code_simp+
  note t = rendered_values_are_strings [OF g]
  from t 1 have a: "typeof (JStr ''10'' :: int option jsval) = ''string''"
    by blast
  from t 2(1) have b: "map_of [(''ID'', JStr ''TB1''), (''transaction_ID'', JStr ''T1''),
      (''item_ID'', JStr ''I1''), (''batch'', JStr ''B7''),
      (''price_extension'', JStr ''24''), (''note'', JNull),
      (''cost_price'', JStr ''2''), (''sell_price'', JStr ''3''),
      (''expiry_date'', JStr ''0000-00-00T00:00:00''),
      (''pack_size'', JStr ''10''), (''quantity'', JStr ''12''),
      (''item_line_ID'', JStr ''IB1''), (''line_number'', JStr ''1''),
      (''item_name'', JStr ''Amoxicillin''),
      (''is_from_inventory_adjustment'', JBool True),
      (''type'', JStr ''supplier_invoice'')] ''batch'' =
      Some (field sample_transactionBatch ''batch'')"
    by blast
  from t 2(2) have c: "map_of [(''ID'', JStr ''TB1''), (''transaction_ID'', JStr ''T1''),
      (''item_ID'', JStr ''I1''), (''batch'', JStr ''B7''),
      (''price_extension'', JStr ''24''), (''note'', JNull),
      (''cost_price'', JStr ''2''), (''sell_price'', JStr ''3''),
      (''expiry_date'', JStr ''0000-00-00T00:00:00''),
      (''pack_size'', JStr ''10''), (''quantity'', JStr ''12''),
      (''item_line_ID'', JStr ''IB1''), (''line_number'', JStr ''1''),
      (''item_name'', JStr ''Amoxicillin''),
      (''is_from_inventory_adjustment'', JBool True),
      (''type'', JStr ''supplier_invoice'')] ''note'' =
      Some (field sample_transactionBatch ''note'')"
    by blast
  have d: "map_of [(''ID'', JStr ''TB1''), (''transaction_ID'', JStr ''T1''),
      (''item_ID'', JStr ''I1''), (''batch'', JStr ''B7''),
      (''price_extension'', JStr ''24''), (''note'', JNull),
      (''cost_price'', JStr ''2''), (''sell_price'', JStr ''3''),
      (''expiry_date'', JStr ''0000-00-00T00:00:00''),
      (''pack_size'', JStr ''10''), (''quantity'', JStr ''12''),
      (''item_line_ID'', JStr ''IB1''), (''line_number'', JStr ''1''),
      (''item_name'', JStr ''Amoxicillin''),
      (''is_from_inventory_adjustment'', JBool True),
      (''type'', JStr ''supplier_invoice'')] ''is_from_inventory_adjustment'' =
      Some (JBool True :: int option jsval)"
    by code_simp
  from g 1 a b c d 3 show ?thesis by simp
qed

section \<open>What the envelope depends on\<close>
























end
